theory Spec2Isabelle
  imports Main "HOL-Library.Sublist" "HOL-Library.Word"
begin

section \<open>Go values shared by the packages\<close>

text \<open>
  Go strings are byte sequences; they are modelled by \<open>string\<close> (a list of 8-bit
  characters). A Go \<open>map[string]any\<close> is a partial function from keys to values of the
  type \<open>any\<close> below, which lists the dynamic types the modelled code stores in such maps.
  A nil interface value is \<open>ANil\<close>; values the code only passes through are \<open>AOther\<close>.
\<close>

datatype any =
    ANil
  | AString string
  | AStrings "string list"
  | AInt32 "32 word"
  | ADocuments "Document list"
  | AMap "string \<Rightarrow> any option"
  | AMessages "(string \<times> string) list"
  | AOther nat
and Document =
    Document (PageContent: string) (Metadata: "string \<Rightarrow> any option")

type_synonym ChainValues = "string \<Rightarrow> any option"

text \<open>
  Errors are values. The sentinel errors of the packages keep their Go names; an error
  wrapped with \<open>fmt.Errorf("%w: ...")\<close> carries the text after the colon. A runtime panic
  (index out of range) is the value \<open>Panic\<close>; errors of collaborators outside the
  repository (SDK clients, callbacks, JSON coding) are \<open>ClientError\<close>,
  \<open>CallbackError\<close> and \<open>JSONError\<close>. \<open>ExecError\<close> is an error of the execution of a
  \<open>text/template\<close>, \<open>MissingVariable\<close> the error of the spec's prompt template.
\<close>

datatype error =
    ErrInvalidInputValues string
  | ErrInputValuesWrongType
  | ErrUnableToParseOutput string
  | ErrInvalidChainReturnType
  | UnsupportedProvider string
  | StopSequenceNotSupported string
  | JSONError string
  | ClientError string
  | CallbackError string
  | MissingVariable string
  | ExecError string
  | Panic string

datatype ChatMessage =
    HumanChatMessage string
  | AIChatMessage string
  | SystemChatMessage string
  | GenericChatMessage string string

section \<open>The Go standard library, as far as the code uses it\<close>

subsection \<open>Package strings\<close>

text \<open>
  \<open>strings.Index\<close> returns the byte offset of the first occurrence of \<open>substr\<close>, or -1;
  here \<open>None\<close> stands for -1. \<open>strings.Contains\<close> is \<open>Index \<ge> 0\<close>.
\<close>

fun Index :: "string \<Rightarrow> string \<Rightarrow> nat option" where
  "Index [] substr = (if substr = [] then Some 0 else None)"
| "Index (c # s) substr =
     (if prefix substr (c # s) then Some 0 else map_option Suc (Index s substr))"

definition Contains :: "string \<Rightarrow> string \<Rightarrow> bool" where
  "Contains s substr = (Index s substr \<noteq> None)"

text \<open>
  \<open>strings.Split(s, sep)\<close> cuts \<open>s\<close> at the successive, non-overlapping occurrences of
  \<open>sep\<close> found from left to right, and returns the pieces between them: the library's
  loop takes the text before the first occurrence, drops the separator and goes on with
  the rest. With an empty separator the library splits after each UTF-8 sequence; the
  model splits after each byte, which is the same on ASCII text (the code below only
  calls \<open>Split\<close> with non-empty constant separators).
\<close>

function Split :: "string \<Rightarrow> string \<Rightarrow> string list" where
  "Split s sep =
     (if sep = [] then map (\<lambda>c. [c]) s
      else case Index s sep of
             None \<Rightarrow> [s]
           | Some m \<Rightarrow> take m s # Split (drop (m + length sep) s) sep)"
  by pat_completeness auto
termination
proof (relation "measure (\<lambda>(s, sep). length s)")
  show "wf (measure (\<lambda>(s, sep). length s))" by simp
next
  fix s sep :: string and m
  assume "sep \<noteq> []" and "Index s sep = Some m"
  then have "s \<noteq> []" by (cases s) auto
  with \<open>sep \<noteq> []\<close> show "((drop (m + length sep) s, sep), (s, sep)) \<in> measure (\<lambda>(s, sep). length s)"
    by (cases sep) auto
qed

text \<open>
  \<open>strings.TrimSpace\<close> removes leading and trailing white space as Unicode defines it
  (\<open>unicode.IsSpace\<close>): the six ASCII characters tab, line feed, vertical tab, form feed,
  carriage return and space, and U+0085, U+00A0, U+1680, U+2000 to U+200A, U+2028,
  U+2029, U+202F, U+205F and U+3000, which appear in a Go string as their UTF-8
  encodings. \<open>spaceRunes\<close> lists these byte sequences.
\<close>

definition asciiSpace :: "char list" where
  "asciiSpace = [CHR 0x09, CHR 0x0A, CHR 0x0B, CHR 0x0C, CHR 0x0D, CHR 0x20]"

definition spaceRunes :: "string list" where
  "spaceRunes = map (\<lambda>c. [c]) asciiSpace @
     [[CHR 0xC2, CHR 0x85], [CHR 0xC2, CHR 0xA0], [CHR 0xE1, CHR 0x9A, CHR 0x80]] @
     map (\<lambda>c. [CHR 0xE2, CHR 0x80, c])
       [CHR 0x80, CHR 0x81, CHR 0x82, CHR 0x83, CHR 0x84, CHR 0x85, CHR 0x86, CHR 0x87,
        CHR 0x88, CHR 0x89, CHR 0x8A, CHR 0xA8, CHR 0xA9, CHR 0xAF] @
     [[CHR 0xE2, CHR 0x81, CHR 0x9F], [CHR 0xE3, CHR 0x80, CHR 0x80]]"

function TrimLeftSpace :: "string \<Rightarrow> string" where
  "TrimLeftSpace s =
     (case find (\<lambda>w. prefix w s) spaceRunes of
        None \<Rightarrow> s
      | Some w \<Rightarrow> TrimLeftSpace (drop (length w) s))"
  by pat_completeness auto
termination
proof (relation "measure length")
  show "wf (measure length)" by simp
next
  fix s w :: string
  assume "find (\<lambda>w. prefix w s) spaceRunes = Some w"
  then have "w \<in> set spaceRunes" and "prefix w s"
    by (auto simp: find_Some_iff)
  then have "w \<noteq> []" by (auto simp: spaceRunes_def asciiSpace_def)
  with \<open>prefix w s\<close> have "s \<noteq> []" by auto
  with \<open>w \<noteq> []\<close> show "(drop (length w) s, s) \<in> measure length" by simp
qed

function TrimRightSpace :: "string \<Rightarrow> string" where
  "TrimRightSpace s =
     (case find (\<lambda>w. suffix w s) spaceRunes of
        None \<Rightarrow> s
      | Some w \<Rightarrow> TrimRightSpace (take (length s - length w) s))"
  by pat_completeness auto
termination
proof (relation "measure length")
  show "wf (measure length)" by simp
next
  fix s w :: string
  assume "find (\<lambda>w. suffix w s) spaceRunes = Some w"
  then have "w \<in> set spaceRunes" and "suffix w s"
    by (auto simp: find_Some_iff)
  then have "w \<noteq> []" by (auto simp: spaceRunes_def asciiSpace_def)
  with \<open>suffix w s\<close> have "s \<noteq> []" by auto
  with \<open>w \<noteq> []\<close> show "(take (length s - length w) s, s) \<in> measure length" by simp
qed

definition TrimSpace :: "string \<Rightarrow> string" where
  "TrimSpace s = TrimRightSpace (TrimLeftSpace s)"

subsection \<open>Package regexp, for the patterns of the code\<close>

text \<open>
  The agent compiles one regular expression, built from literals, \<open>\s*\<close> and \<open>(.+)\<close>.
  The model has an instruction for each of these forms: a literal, a greedy star over a
  character class, and a capturing group around a greedy plus over a character class.
  The classes are \<open>\s\<close> (tab, line feed, form feed, carriage return, space) and \<open>.\<close>
  (any character but line feed). All literals of the pattern are ASCII, so matching
  bytes gives the same result as matching UTF-8 sequences.

  Go's \<open>regexp\<close> returns the leftmost match and, among the matches that start there,
  the one a backtracking search finds first. \<open>matchHere\<close> is this backtracking search at
  one start position: a greedy repetition tries the longest run first (\<open>greedy lo n\<close>
  lists the lengths \<open>n\<close> down to \<open>lo\<close>); it returns the captured groups and the text left
  after the match. \<open>FindStringSubmatch\<close> tries the start positions from the left and
  returns the matched text followed by the groups, or \<open>None\<close> (a nil slice).
\<close>

datatype cls = Space | AnyChar

fun in_cls :: "cls \<Rightarrow> char \<Rightarrow> bool" where
  "in_cls Space c = (c \<in> set [CHR 0x09, CHR 0x0A, CHR 0x0C, CHR 0x0D, CHR 0x20])"
| "in_cls AnyChar c = (c \<noteq> CHR 0x0A)"

datatype inst = Lit string | Star cls | CapPlus cls

fun first_some :: "('a \<Rightarrow> 'b option) \<Rightarrow> 'a list \<Rightarrow> 'b option" where
  "first_some f [] = None"
| "first_some f (x # xs) = (case f x of Some y \<Rightarrow> Some y | None \<Rightarrow> first_some f xs)"

definition greedy :: "nat \<Rightarrow> nat \<Rightarrow> nat list" where
  "greedy lo n = rev [lo ..< Suc n]"

primrec matchHere :: "inst list \<Rightarrow> string \<Rightarrow> (string list \<times> string) option" where
  "matchHere [] = (\<lambda>s. Some ([], s))"
| "matchHere (e # es) = (\<lambda>s.
     case e of
       Lit l \<Rightarrow> (if prefix l s then matchHere es (drop (length l) s) else None)
     | Star c \<Rightarrow>
         first_some (\<lambda>k. matchHere es (drop k s))
           (greedy 0 (length (takeWhile (in_cls c) s)))
     | CapPlus c \<Rightarrow>
         first_some (\<lambda>k. map_option (\<lambda>(caps, r). (take k s # caps, r)) (matchHere es (drop k s)))
           (greedy 1 (length (takeWhile (in_cls c) s))))"

definition FindStringSubmatch :: "inst list \<Rightarrow> string \<Rightarrow> string list option" where
  "FindStringSubmatch re s =
     first_some (\<lambda>i. map_option (\<lambda>(caps, r). take (length s - i - length r) (drop i s) # caps)
                       (matchHere re (drop i s)))
       [0 ..< Suc (length s)]"




section \<open>Package tokenizer: the Simple tokenizer\<close>

text \<open>
  The interface \<open>schema.Tokenizer\<close> is a record of its three methods. A Go slice result
  that may be nil is an option: \<open>None\<close> is the nil slice.
\<close>

record Tokenizer =
  GetTokenIDs :: "string \<Rightarrow> error + int list option"
  GetNumTokens :: "string \<Rightarrow> error + int"
  GetNumTokensFromMessage :: "ChatMessage list \<Rightarrow> error + int"

definition Simple_GetTokenIDs :: "string \<Rightarrow> error + int list option" where
  "Simple_GetTokenIDs txt = Inr None"

definition Simple_GetNumTokens :: "string \<Rightarrow> error + int" where
  "Simple_GetNumTokens txt = Inr 0"

definition Simple_GetNumTokensFromMessage :: "ChatMessage list \<Rightarrow> error + int" where
  "Simple_GetNumTokensFromMessage messages = Inr 0"

definition NewSimple :: Tokenizer where
  "NewSimple = \<lparr> GetTokenIDs = Simple_GetTokenIDs,
                 GetNumTokens = Simple_GetNumTokens,
                 GetNumTokensFromMessage = Simple_GetNumTokensFromMessage \<rparr>"

subsection \<open>The two LLMs that install it\<close>

text \<open>
  \<open>NewSagemakerEndpoint\<close> and \<open>NewCohere\<close> build the model value with
  \<open>tokenizer.NewSimple()\<close> in its embedded \<open>Tokenizer\<close> field. The SDK clients are
  opaque (\<open>'c\<close>, and \<open>'h\<close> for the content handler), \<open>golc.Verbose\<close> is a
  parameter; \<open>cohere.CreateClient\<close>, which may fail, is a parameter of
  \<open>NewCohere\<close>, and the option functions are applied in order.
\<close>

record CallbackOptions =
  Verbose :: bool

record ('c, 'h) SagemakerEndpoint =
  se_Tokenizer :: Tokenizer
  se_client :: 'c
  se_endpointName :: string
  se_contenHandler :: 'h
  se_opts :: CallbackOptions

definition NewSagemakerEndpoint ::
  "bool \<Rightarrow> 'c \<Rightarrow> string \<Rightarrow> 'h \<Rightarrow> error + ('c, 'h) SagemakerEndpoint" where
  "NewSagemakerEndpoint golc_Verbose client endpointName contenHandler =
     (let opts = \<lparr> Verbose = golc_Verbose \<rparr>
      in Inr \<lparr> se_Tokenizer = NewSimple, se_client = client,
               se_endpointName = endpointName, se_contenHandler = contenHandler,
               se_opts = opts \<rparr>)"

record CohereOptions =
  co_CallbackOptions :: CallbackOptions
  co_Model :: string

record 'c Cohere =
  c_Tokenizer :: Tokenizer
  c_client :: 'c
  c_opts :: CohereOptions

definition NewCohere ::
  "bool \<Rightarrow> (string \<Rightarrow> error + 'c) \<Rightarrow> string \<Rightarrow> (CohereOptions \<Rightarrow> CohereOptions) list
     \<Rightarrow> error + 'c Cohere" where
  "NewCohere golc_Verbose CreateClient apiKey optFns =
     (let opts0 = \<lparr> co_CallbackOptions = \<lparr> Verbose = golc_Verbose \<rparr>, co_Model = ''medium'' \<rparr>;
          opts = foldl (\<lambda>acc fn. fn acc) opts0 optFns
      in case CreateClient apiKey of
           Inl err \<Rightarrow> Inl err
         | Inr client \<Rightarrow> Inr \<lparr> c_Tokenizer = NewSimple, c_client = client, c_opts = opts \<rparr>)"

section \<open>Package agent: the zero-shot ReAct agent\<close>

text \<open>
  Modelled from the spec: the declarations of \<open>golc.AgentAction\<close>, \<open>golc.AgentFinish\<close>
  and \<open>golc.AgentStep\<close> are not among the sources; the spec's data model gives their
  fields, and the agent's code uses exactly these (\<open>Tool\<close>, \<open>ToolInput\<close>, \<open>Log\<close>;
  \<open>ReturnValues\<close>, \<open>Log\<close>; \<open>Action\<close>, \<open>Observation\<close>). The field \<open>Log\<close> of
  \<open>AgentFinish\<close> is named \<open>FinishLog\<close> here, since two records cannot share a field name.

  The agent holds a chain, its tools and its options. Of the chain the agent uses
  \<open>chain.Call(ctx, a.chain, inputs)\<close> and \<open>a.chain.OutputKeys()\<close>; the first is the
  function \<open>agent_chain_Call\<close>, the second the list \<open>agent_chain_OutputKeys\<close>.
\<close>

definition finalAnswerAction :: string where
  "finalAnswerAction = ''Final Answer:''"

record AgentAction =
  Tool :: string
  ToolInput :: string
  Log :: string

record AgentFinish =
  ReturnValues :: "string \<Rightarrow> any option"
  FinishLog :: string

record AgentStep =
  Action :: AgentAction
  Observation :: string

record ZeroShotReactDescriptionAgentOptions =
  agent_Prefix :: string
  agent_Instructions :: string
  agent_Suffix :: string
  agent_OutputKey :: string

record 't ZeroShotReactDescriptionAgent =
  agent_chain_Call :: "(string \<Rightarrow> any option) \<Rightarrow> error + (string \<Rightarrow> any option)"
  agent_chain_OutputKeys :: "string list"
  agent_tools :: "'t list"
  agent_opts :: ZeroShotReactDescriptionAgentOptions

text \<open>
  \<open>constructScratchPad\<close>: the loop appends, for each step in order, the action's log and
  then \<open>fmt.Sprintf("\nObservation: %s\nThought:", step.Observation)\<close>.
\<close>

definition constructScratchPad :: "AgentStep list \<Rightarrow> string" where
  "constructScratchPad steps =
     foldl (\<lambda>scratchPad step.
              (scratchPad @ Log (Action step))
                @ (''\<newline>Observation: '' @ Observation step @ ''\<newline>Thought:''))
       [] steps"

text \<open>
  \<open>Plan\<close> copies the caller's inputs into a fresh \<open>ChainValues\<close>, stores the scratchpad
  under \<open>"agentScratchpad"\<close> (\<open>fullInputes\<close>), calls the chain with it and parses the
  string found under the chain's first output key. The three results of \<open>Plan\<close> and
  \<open>parseOutput\<close> (actions, finish, error) are a triple; a nil slice is the empty list.
\<close>

definition fullInputes :: "AgentStep list \<Rightarrow> (string \<Rightarrow> string option) \<Rightarrow> (string \<Rightarrow> any option)" where
  "fullInputes intermediateSteps inputs =
     (\<lambda>key. map_option AString (inputs key))
       (''agentScratchpad'' \<mapsto> AString (constructScratchPad intermediateSteps))"

text \<open>
  The regular expression of \<open>parseOutput\<close>,
  \<open>Action:\s*(.+)\s*Action Input:\s*(.+)\<close>, as instructions.
\<close>

definition actionRegexp :: "inst list" where
  "actionRegexp = [Lit ''Action:'', Star Space, CapPlus AnyChar, Star Space,
                   Lit ''Action Input:'', Star Space, CapPlus AnyChar]"

definition parseOutput ::
  "'t ZeroShotReactDescriptionAgent \<Rightarrow> string
     \<Rightarrow> AgentAction list \<times> AgentFinish option \<times> error option" where
  "parseOutput a output =
     (if Contains output finalAnswerAction then
        (let splits = Split output finalAnswerAction
         in ([], Some \<lparr> ReturnValues = [agent_OutputKey (agent_opts a) \<mapsto> AString (splits ! (length splits - 1))],
                        FinishLog = output \<rparr>, None))
      else
        (case FindStringSubmatch actionRegexp output of
           None \<Rightarrow> ([], None, Some (ErrUnableToParseOutput output))
         | Some matches \<Rightarrow>
             ([\<lparr> Tool = TrimSpace (matches ! 1), ToolInput = TrimSpace (matches ! 2),
                 Log = output \<rparr>], None, None)))"

definition Plan ::
  "'t ZeroShotReactDescriptionAgent \<Rightarrow> AgentStep list \<Rightarrow> (string \<Rightarrow> string option)
     \<Rightarrow> AgentAction list \<times> AgentFinish option \<times> error option" where
  "Plan a intermediateSteps inputs =
     (case agent_chain_Call a (fullInputes intermediateSteps inputs) of
        Inl err \<Rightarrow> ([], None, Some err)
      | Inr resp \<Rightarrow>
          (case agent_chain_OutputKeys a of
             [] \<Rightarrow> ([], None, Some (Panic ''index out of range''))
           | key # _ \<Rightarrow>
               (case resp key of
                  Some (AString output) \<Rightarrow> parseOutput a output
                | _ \<Rightarrow> ([], None, Some ErrInvalidChainReturnType))))"


text \<open>An agent with the default output key, for the examples.\<close>

definition exampleAgent :: "unit ZeroShotReactDescriptionAgent" where
  "exampleAgent = \<lparr> agent_chain_Call = (\<lambda>inputs. Inr Map.empty), agent_chain_OutputKeys = [''text''],
      agent_tools = [], agent_opts = \<lparr> agent_Prefix = [], agent_Instructions = [], agent_Suffix = [], agent_OutputKey = ''output'' \<rparr> \<rparr>"

text \<open>
  An agent for the examples whose chain answers \<open>Final Answer:\<close> followed by the
  scratchpad it was called with, and one step of history.
\<close>

definition echoAgent :: "unit ZeroShotReactDescriptionAgent" where
  "echoAgent =
     \<lparr> agent_chain_Call = (\<lambda>inputs.
         case inputs ''agentScratchpad'' of
           Some (AString scratchPad) \<Rightarrow> Inr [''text'' \<mapsto> AString (''Final Answer:'' @ scratchPad)]
         | _ \<Rightarrow> Inl (ClientError ''no scratchpad'')),
       agent_chain_OutputKeys = [''text''], agent_tools = [],
       agent_opts = \<lparr> agent_Prefix = [], agent_Instructions = [], agent_Suffix = [],
                      agent_OutputKey = ''output'' \<rparr> \<rparr>"

definition searchStep :: AgentStep where
  "searchStep =
     \<lparr> Action = \<lparr> Tool = ''search'', ToolInput = ''capital of France'', Log = ''I look it up.'' \<rparr>,
       Observation = ''Paris'' \<rparr>"

section \<open>Package prompt: the formatter\<close>

text \<open>
  The formatter is a thin layer over Go's \<open>text/template\<close>:
  \<open>template.New("template").Funcs(sprig.FuncMap()).Parse(text)\<close> and \<open>Execute\<close>. Of the
  template language the model has literal text, the field action \<open>{{.name}}\<close>, which
  prints the field \<open>name\<close> of the data, and the call \<open>{{fn .name}}\<close> of a function of the
  function map on a field. A template holds its parse tree, its function map and its
  \<open>missingkey\<close> option; \<open>template.New\<close> sets the option to its default,
  \<open>missingkey=invalid\<close>, and only \<open>Option\<close> changes it. The function map of sprig is not
  among the sources: it is the parameter of \<open>NewFormatter\<close>, and the model has its
  functions of one string parameter, which return a string or an error message.
\<close>

datatype Node = TextNode string | ActionNode string | CallNode string string

datatype missingKeyAction = mapInvalid | mapZeroValue | mapError

type_synonym FuncMap = "string \<Rightarrow> (string \<Rightarrow> string + string) option"

record template =
  t_root :: "Node list"
  t_missingKey :: missingKeyAction
  t_funcs :: FuncMap

definition template_New :: template where
  "template_New = \<lparr> t_root = [], t_missingKey = mapInvalid, t_funcs = Map.empty \<rparr>"

definition template_Funcs :: "FuncMap \<Rightarrow> template \<Rightarrow> template" where
  "template_Funcs funcMap t = t\<lparr> t_funcs := t_funcs t ++ funcMap \<rparr>"

definition template_Option :: "missingKeyAction \<Rightarrow> template \<Rightarrow> template" where
  "template_Option action t = t\<lparr> t_missingKey := action \<rparr>"

text \<open>
  \<open>Parse\<close> cuts the text at each \<open>{{\<close>; what follows up to the next \<open>}}\<close> is an action.
  With blanks around it removed, the action is a field (a dot and an identifier: letters,
  digits and underscores, not starting with a digit), or an identifier that the function
  map defines, blanks and a field. The result is \<open>None\<close> for every other text: where
  \<open>Parse\<close> fails and \<open>template.Must\<close> panics (an action that does not close; \<open>{{query}}\<close>
  without the dot, which calls a function that is not defined), and where the template
  has an action that the model does not have (pipelines, fields of fields, control
  structures, variables, comments). The theorems speak of the templates for which it is
  not \<open>None\<close>.
\<close>

definition isTemplateSpace :: "char \<Rightarrow> bool" where
  "isTemplateSpace c = (c \<in> set [CHR '' '', CHR 0x09, CHR 0x0D, CHR 0x0A])"

definition isAlphaNumeric :: "char \<Rightarrow> bool" where
  "isAlphaNumeric c =
     (c = CHR ''_'' \<or> c \<in> set ''abcdefghijklmnopqrstuvwxyz''
      \<or> c \<in> set ''ABCDEFGHIJKLMNOPQRSTUVWXYZ'' \<or> c \<in> set ''0123456789'')"

definition isIdentifier :: "string \<Rightarrow> bool" where
  "isIdentifier w = (w \<noteq> [] \<and> list_all isAlphaNumeric w \<and> hd w \<notin> set ''0123456789'')"

definition parseField :: "string \<Rightarrow> string option" where
  "parseField s =
     (case s of
        [] \<Rightarrow> None
      | c # name \<Rightarrow> if c = CHR ''.'' \<and> isIdentifier name then Some name else None)"

definition parseAction :: "FuncMap \<Rightarrow> string \<Rightarrow> Node option" where
  "parseAction funcs inner =
     (let trimmed = rev (dropWhile isTemplateSpace (rev (dropWhile isTemplateSpace inner)));
          word = takeWhile isAlphaNumeric trimmed;
          rest = dropWhile isAlphaNumeric trimmed
      in if word = [] then map_option ActionNode (parseField trimmed)
         else
           (case funcs word of
              None \<Rightarrow> None
            | Some function \<Rightarrow>
                if isIdentifier word \<and> rest \<noteq> [] \<and> isTemplateSpace (hd rest)
                then map_option (CallNode word) (parseField (dropWhile isTemplateSpace rest))
                else None))"

definition textNode :: "string \<Rightarrow> Node list" where
  "textNode t = (if t = [] then [] else [TextNode t])"

fun parseActions :: "FuncMap \<Rightarrow> string list \<Rightarrow> Node list option" where
  "parseActions funcs [] = Some []"
| "parseActions funcs (piece # pieces) =
     (case Index piece ''}}'' of
        None \<Rightarrow> None
      | Some j \<Rightarrow>
          (case parseAction funcs (take j piece) of
             None \<Rightarrow> None
           | Some node \<Rightarrow>
               (case parseActions funcs pieces of
                  None \<Rightarrow> None
                | Some nodes \<Rightarrow> Some (node # textNode (drop (j + 2) piece) @ nodes))))"

definition parseNodes :: "FuncMap \<Rightarrow> string \<Rightarrow> Node list option" where
  "parseNodes funcs txt =
     (case Split txt ''{{'' of
        [] \<Rightarrow> None
      | first # pieces \<Rightarrow>
          map_option (\<lambda>nodes. textNode first @ nodes) (parseActions funcs pieces))"

definition template_Parse :: "template \<Rightarrow> string \<Rightarrow> template option" where
  "template_Parse t txt = map_option (\<lambda>nodes. t\<lparr> t_root := nodes \<rparr>) (parseNodes (t_funcs t) txt)"

text \<open>
  \<open>ListTemplateFields\<close> collects \<open>node.String()\<close> of the action nodes of the root list:
  the action as written, without the blanks around it and with one blank between a
  function and its argument.
\<close>

fun listNodeFields :: "Node \<Rightarrow> string list" where
  "listNodeFields (ActionNode name) = [''{{.'' @ name @ ''}}'']"
| "listNodeFields (CallNode fn name) = [''{{'' @ fn @ '' .'' @ name @ ''}}'']"
| "listNodeFields (TextNode t) = []"

definition ListTemplateFields :: "template \<Rightarrow> string list" where
  "ListTemplateFields t = concat (map listNodeFields (t_root t))"

record Formatter =
  fm_text :: string
  fm_template :: template
  fm_fields :: "string list"

definition NewFormatter :: "FuncMap \<Rightarrow> string \<Rightarrow> Formatter option" where
  "NewFormatter sprig_FuncMap txt =
     (case template_Parse (template_Funcs sprig_FuncMap template_New) txt of
        None \<Rightarrow> None
      | Some t \<Rightarrow> Some \<lparr> fm_text = txt, fm_template = t, fm_fields = ListTemplateFields t \<rparr>)"

text \<open>
  \<open>Execute\<close> walks the nodes and writes into a buffer; it stops at the first error. A
  field is looked up in the map. For a key that the map does not have, the option
  decides: with \<open>missingkey=invalid\<close> the result is the invalid value, with
  \<open>missingkey=zero\<close> the zero value of the map's element type, here the nil interface
  value, and with \<open>missingkey=error\<close> execution stops with an error. A field action
  prints its value: the invalid value and the nil interface value as \<open><no value>\<close>, a
  string as it stands, any other value with \<open>fmt.Fprint\<close>, the parameter \<open>Sprint\<close>. A
  call checks its argument against the parameter type of the function, \<open>string\<close>: the
  invalid value and a value of another type stop the execution with an error; so does an
  error of the function. The texts of the errors are shortened.
\<close>

definition evalField :: "template \<Rightarrow> (string \<Rightarrow> any option) \<Rightarrow> string \<Rightarrow> error + any option" where
  "evalField t dot name =
     (case dot name of
        Some v \<Rightarrow> Inr (Some v)
      | None \<Rightarrow>
          (case t_missingKey t of
             mapInvalid \<Rightarrow> Inr None
           | mapZeroValue \<Rightarrow> Inr (Some ANil)
           | mapError \<Rightarrow> Inl (ExecError (''map has no entry for key '' @ name))))"

definition printValue :: "(any \<Rightarrow> string) \<Rightarrow> any option \<Rightarrow> string" where
  "printValue Sprint v =
     (case v of
        None \<Rightarrow> ''<no value>''
      | Some ANil \<Rightarrow> ''<no value>''
      | Some (AString s) \<Rightarrow> s
      | Some x \<Rightarrow> Sprint x)"

definition validateType :: "any option \<Rightarrow> error + string" where
  "validateType v =
     (case v of
        None \<Rightarrow> Inl (ExecError ''invalid value; expected string'')
      | Some (AString s) \<Rightarrow> Inr s
      | Some x \<Rightarrow> Inl (ExecError ''wrong type for value; expected string''))"

definition evalCall :: "template \<Rightarrow> (string \<Rightarrow> any option) \<Rightarrow> string \<Rightarrow> string \<Rightarrow> error + string" where
  "evalCall t dot fn name =
     (case t_funcs t fn of
        None \<Rightarrow> Inl (ExecError (fn @ '' is not a defined function''))
      | Some function \<Rightarrow>
          (case evalField t dot name of
             Inl err \<Rightarrow> Inl err
           | Inr v \<Rightarrow>
               (case validateType v of
                  Inl err \<Rightarrow> Inl err
                | Inr arg \<Rightarrow>
                    (case function arg of
                       Inl msg \<Rightarrow> Inl (ExecError (''error calling '' @ fn @ '': '' @ msg))
                     | Inr res \<Rightarrow> Inr res))))"

fun walk :: "(any \<Rightarrow> string) \<Rightarrow> template \<Rightarrow> (string \<Rightarrow> any option) \<Rightarrow> Node list \<Rightarrow> string \<Rightarrow> error + string" where
  "walk Sprint t dot [] doc = Inr doc"
| "walk Sprint t dot (TextNode s # nodes) doc = walk Sprint t dot nodes (doc @ s)"
| "walk Sprint t dot (ActionNode name # nodes) doc =
     (case evalField t dot name of
        Inl err \<Rightarrow> Inl err
      | Inr v \<Rightarrow> walk Sprint t dot nodes (doc @ printValue Sprint v))"
| "walk Sprint t dot (CallNode fn name # nodes) doc =
     (case evalCall t dot fn name of
        Inl err \<Rightarrow> Inl err
      | Inr res \<Rightarrow> walk Sprint t dot nodes (doc @ res))"

definition Execute :: "(any \<Rightarrow> string) \<Rightarrow> template \<Rightarrow> (string \<Rightarrow> any option) \<Rightarrow> error + string" where
  "Execute Sprint t data = walk Sprint t data (t_root t) []"

definition Render :: "(any \<Rightarrow> string) \<Rightarrow> Formatter \<Rightarrow> (string \<Rightarrow> any option) \<Rightarrow> error + string" where
  "Render Sprint pt vals =
     (case Execute Sprint (fm_template pt) vals of
        Inl err \<Rightarrow> Inl err
      | Inr doc \<Rightarrow> Inr doc)"

definition Fields :: "Formatter \<Rightarrow> string list" where
  "Fields pt = fm_fields pt"

text \<open>
  What the nodes of a formatter's template contribute to the rendered text, stated apart
  from the walk: a text itself; a field action the printed value, \<open><no value>\<close> for a
  field that the map does not have; a call the result of the function on a string
  argument, and an error on any other. \<open>collect\<close> is the first error of a list of
  results, or the concatenation of the texts.
\<close>

definition nodeResult ::
  "(any \<Rightarrow> string) \<Rightarrow> FuncMap \<Rightarrow> (string \<Rightarrow> any option) \<Rightarrow> Node \<Rightarrow> error + string" where
  "nodeResult Sprint funcs vals n =
     (case n of
        TextNode s \<Rightarrow> Inr s
      | ActionNode name \<Rightarrow>
          (case vals name of
             None \<Rightarrow> Inr ''<no value>''
           | Some v \<Rightarrow> Inr (printValue Sprint (Some v)))
      | CallNode fn name \<Rightarrow>
          (case funcs fn of
             None \<Rightarrow> Inl (ExecError (fn @ '' is not a defined function''))
           | Some function \<Rightarrow>
               (case vals name of
                  Some (AString arg) \<Rightarrow>
                    (case function arg of
                       Inl msg \<Rightarrow> Inl (ExecError (''error calling '' @ fn @ '': '' @ msg))
                     | Inr res \<Rightarrow> Inr res)
                | None \<Rightarrow> Inl (ExecError ''invalid value; expected string'')
                | Some x \<Rightarrow> Inl (ExecError ''wrong type for value; expected string''))))"

fun collect :: "(error + string) list \<Rightarrow> error + string" where
  "collect [] = Inr []"
| "collect (Inl err # results) = Inl err"
| "collect (Inr s # results) =
     (case collect results of Inl err \<Rightarrow> Inl err | Inr doc \<Rightarrow> Inr (s @ doc))"

fun isCall :: "Node \<Rightarrow> bool" where
  "isCall (CallNode fn name) = True"
| "isCall n = False"

fun fieldName :: "Node \<Rightarrow> string list" where
  "fieldName (ActionNode name) = [name]"
| "fieldName (CallNode fn name) = [name]"
| "fieldName (TextNode s) = []"

text \<open>
  For the examples: a function map with sprig's \<open>trim\<close>, which is \<open>strings.TrimSpace\<close>,
  and the formatters of the one-variable templates \<open>{{.query}}\<close> and \<open>{{trim .query}}\<close>.
\<close>

definition trimFuncMap :: FuncMap where
  "trimFuncMap = [''trim'' \<mapsto> (\<lambda>s. Inr (TrimSpace s))]"

definition queryFormatter :: Formatter where
  "queryFormatter =
     \<lparr> fm_text = ''{{.query}}'',
       fm_template = \<lparr> t_root = [ActionNode ''query''], t_missingKey = mapInvalid,
                       t_funcs = trimFuncMap \<rparr>,
       fm_fields = [''{{.query}}''] \<rparr>"

definition trimQueryFormatter :: Formatter where
  "trimQueryFormatter =
     \<lparr> fm_text = ''{{ trim .query }}'',
       fm_template = \<lparr> t_root = [CallNode ''trim'' ''query''], t_missingKey = mapInvalid,
                       t_funcs = trimFuncMap \<rparr>,
       fm_fields = [''{{trim .query}}''] \<rparr>"

section \<open>Package chain: the LLM chain and the refine chain\<close>

text \<open>
  The type \<open>prompt.Template\<close> is not among the sources. The chains use its methods
  \<open>Format\<close>, \<open>FormatPrompt\<close> and \<open>InputVariables\<close>, so a template is the record of these;
  a prompt value is the string it stands for.
\<close>

record Template =
  Format :: "(string \<Rightarrow> any option) \<Rightarrow> error + string"
  FormatPrompt :: "(string \<Rightarrow> any option) \<Rightarrow> error + string"
  InputVariables :: "string list"

text \<open>
  The fields that a formatter's template references, each once, in the order of their
  first occurrence.
\<close>

definition referencedFields :: "Formatter \<Rightarrow> string list" where
  "referencedFields formatter = remdups (concat (map fieldName (t_root (fm_template formatter))))"

text \<open>
  Modelled from the spec: \<open>prompt.Template\<close>, which is not among the sources, over the
  repository's \<open>Formatter\<close>. The spec (4.3) says of a template that rendering fails
  with a MissingVariable error if the template references a field that is absent from
  the variables, that variables which are supplied and not used are ignored, and that
  values bound at construction (partial values) are merged with the values of the call,
  which never override them. The required fields are the fields that the template
  references; those that a partial value binds are not required of the caller.
\<close>

definition formatterTemplate ::
  "(any \<Rightarrow> string) \<Rightarrow> Formatter \<Rightarrow> (string \<Rightarrow> any option) \<Rightarrow> Template" where
  "formatterTemplate Sprint formatter partialValues =
     (let format = (\<lambda>vals.
            case find (\<lambda>name. (vals ++ partialValues) name = None) (referencedFields formatter) of
              Some name \<Rightarrow> Inl (MissingVariable name)
            | None \<Rightarrow> Render Sprint formatter (vals ++ partialValues))
      in \<lparr> Format = format, FormatPrompt = format,
           InputVariables =
             filter (\<lambda>name. partialValues name = None) (referencedFields formatter) \<rparr>)"

text \<open>
  \<open>schema.Generation\<close>, \<open>schema.LLMResult\<close> (its generations are pointers, \<open>None\<close> is a nil
  pointer) and the method \<open>Generate\<close> of \<open>schema.LLM\<close>. To say whether the model was
  invoked, a call of a chain returns, next to its result, the list of the calls it made
  to \<open>Generate\<close>, each with its prompts and stop words.
\<close>

record Generation =
  g_Text :: string
  g_Message :: "ChatMessage option"
  g_Info :: "string \<Rightarrow> any option"

record LLMResult =
  Generations :: "Generation option list list"
  LLMOutput :: "string \<Rightarrow> any option"

record LLM =
  Generate :: "string list \<Rightarrow> string list \<Rightarrow> error + LLMResult"



record LLMChainOptions =
  lc_OutputKey :: string

record LLMChain =
  lc_llm :: LLM
  lc_prompt :: Template
  lc_opts :: LLMChainOptions





definition LLMChain_OutputKeys :: "LLMChain \<Rightarrow> string list" where
  "LLMChain_OutputKeys c = [lc_OutputKey (lc_opts c)]"



text \<open>
  Modelled from the spec: package \<open>util\<close> is not among the sources. \<open>OmitByKeys\<close> returns
  the map without the given keys (the "rest" map the spec lets pass through a chain),
  \<open>CopyMap\<close> a copy; maps are values here, so a copy is the map itself.
\<close>

definition OmitByKeys :: "(string \<Rightarrow> any option) \<Rightarrow> string list \<Rightarrow> (string \<Rightarrow> any option)" where
  "OmitByKeys m keys = (\<lambda>k. if k \<in> set keys then None else m k)"

definition CopyMap :: "(string \<Rightarrow> any option) \<Rightarrow> (string \<Rightarrow> any option)" where
  "CopyMap m = m"

text \<open>
  The refine chain holds two LLM chains, of which it uses \<open>Predict\<close>
  (\<open>LLMChain.Predict\<close> is not among the sources; a deterministic chain is a function from
  the inputs to an answer or an error), and its options. \<open>NewRefineDocumentsChain\<close> sets
  the default keys and the document prompt \<open>{{.pageContent}}\<close>; \<open>prompt.NewTemplate\<close> is
  its parameter.
\<close>

record RefineDocumentsOptions =
  r_InputKey :: string
  r_DocumentVariableName :: string
  r_InitialResponseName :: string
  r_DocumentPrompt :: Template
  r_OutputKey :: string

record RefineDocumentsChain =
  llmChain_Predict :: "(string \<Rightarrow> any option) \<Rightarrow> error + string"
  refineLLMChain_Predict :: "(string \<Rightarrow> any option) \<Rightarrow> error + string"
  r_opts :: RefineDocumentsOptions

definition NewRefineDocumentsChain ::
  "(string \<Rightarrow> error + Template) \<Rightarrow> ((string \<Rightarrow> any option) \<Rightarrow> error + string)
     \<Rightarrow> ((string \<Rightarrow> any option) \<Rightarrow> error + string) \<Rightarrow> error + RefineDocumentsChain" where
  "NewRefineDocumentsChain NewTemplate llmChain refineLLMChain =
     (case NewTemplate ''{{.pageContent}}'' of
        Inl err \<Rightarrow> Inl err
      | Inr p \<Rightarrow>
          Inr \<lparr> llmChain_Predict = llmChain, refineLLMChain_Predict = refineLLMChain,
                r_opts = \<lparr> r_InputKey = ''inputDocuments'', r_DocumentVariableName = ''context'',
                           r_InitialResponseName = ''existingAnswer'', r_DocumentPrompt = p,
                           r_OutputKey = ''text'' \<rparr> \<rparr>)"

text \<open>
  \<open>constructInitialInputs\<close> and \<open>constructRefineInputs\<close> build the map \<open>docInfo\<close> of a
  document (its page content under \<open>pageContent\<close>, then its metadata, which overwrite),
  render it with the document prompt and store the text under the document variable
  name in a copy of the rest map; the second also stores the last response.
\<close>

definition docInfo :: "Document \<Rightarrow> (string \<Rightarrow> any option)" where
  "docInfo doc = [''pageContent'' \<mapsto> AString (PageContent doc)] ++ Metadata doc"

definition constructInitialInputs ::
  "RefineDocumentsChain \<Rightarrow> Document \<Rightarrow> (string \<Rightarrow> any option) \<Rightarrow> error + (string \<Rightarrow> any option)" where
  "constructInitialInputs refine doc rest =
     (let inputs = CopyMap rest
      in case Format (r_DocumentPrompt (r_opts refine)) (docInfo doc) of
           Inl err \<Rightarrow> Inl err
         | Inr docText \<Rightarrow>
             Inr (inputs(r_DocumentVariableName (r_opts refine) \<mapsto> AString docText)))"

definition constructRefineInputs ::
  "RefineDocumentsChain \<Rightarrow> Document \<Rightarrow> string \<Rightarrow> (string \<Rightarrow> any option)
     \<Rightarrow> error + (string \<Rightarrow> any option)" where
  "constructRefineInputs refine doc lastResponse rest =
     (let inputs = CopyMap rest
      in case Format (r_DocumentPrompt (r_opts refine)) (docInfo doc) of
           Inl err \<Rightarrow> Inl err
         | Inr docText \<Rightarrow>
             Inr (inputs(r_DocumentVariableName (r_opts refine) \<mapsto> AString docText,
                         r_InitialResponseName (r_opts refine) \<mapsto> AString lastResponse)))"

text \<open>
  The loop of \<open>call\<close>, \<open>for i := 1; i < len(docs); i++\<close>, with the running answer \<open>res\<close>.
\<close>

function refine_loop ::
  "RefineDocumentsChain \<Rightarrow> Document list \<Rightarrow> (string \<Rightarrow> any option) \<Rightarrow> nat \<Rightarrow> string
     \<Rightarrow> error + string" where
  "refine_loop refine docs rest i res =
     (if i < length docs then
        (case constructRefineInputs refine (docs ! i) res rest of
           Inl err \<Rightarrow> Inl err
         | Inr refineInputs \<Rightarrow>
             (case refineLLMChain_Predict refine refineInputs of
                Inl err \<Rightarrow> Inl err
              | Inr res' \<Rightarrow> refine_loop refine docs rest (i + 1) res'))
      else Inr res)"
  by pat_completeness auto
termination
  by (relation "measure (\<lambda>(refine, docs, rest, i, res). length docs - i)") auto

definition call ::
  "RefineDocumentsChain \<Rightarrow> (string \<Rightarrow> any option) \<Rightarrow> error + (string \<Rightarrow> any option)" where
  "call refine vals =
     (case vals (r_InputKey (r_opts refine)) of
        None \<Rightarrow>
          Inl (ErrInvalidInputValues (''no value for inputKey '' @ r_InputKey (r_opts refine)))
      | Some (ADocuments docs) \<Rightarrow>
          if length docs = 0 then Inl (ErrInvalidInputValues ''documents slice has no elements'')
          else
            (let rest = OmitByKeys vals [r_InputKey (r_opts refine)]
             in case constructInitialInputs refine (docs ! 0) rest of
                  Inl err \<Rightarrow> Inl err
                | Inr initialInputs \<Rightarrow>
                    (case llmChain_Predict refine initialInputs of
                       Inl err \<Rightarrow> Inl err
                     | Inr res \<Rightarrow>
                         (case refine_loop refine docs rest 1 res of
                            Inl err \<Rightarrow> Inl err
                          | Inr final \<Rightarrow> Inr [r_OutputKey (r_opts refine) \<mapsto> AString final])))
      | Some _ \<Rightarrow> Inl ErrInputValuesWrongType)"

text \<open>
  The fold the spec describes, in its words: a document's rendered content; the initial
  chain applied to the first document's rendered content; the refine chain applied to a
  document's rendered content plus the previous running answer; and the left fold of
  the latter over the remaining documents, which stops at the first error.
\<close>

definition rendered :: "RefineDocumentsChain \<Rightarrow> Document \<Rightarrow> error + string" where
  "rendered refine doc = Format (r_DocumentPrompt (r_opts refine)) (docInfo doc)"

definition initial_answer ::
  "RefineDocumentsChain \<Rightarrow> (string \<Rightarrow> any option) \<Rightarrow> Document \<Rightarrow> error + string" where
  "initial_answer refine rest doc =
     (case rendered refine doc of
        Inl err \<Rightarrow> Inl err
      | Inr content \<Rightarrow>
          llmChain_Predict refine (rest(r_DocumentVariableName (r_opts refine) \<mapsto> AString content)))"

definition refine_answer ::
  "RefineDocumentsChain \<Rightarrow> (string \<Rightarrow> any option) \<Rightarrow> string \<Rightarrow> Document \<Rightarrow> error + string" where
  "refine_answer refine rest answer doc =
     (case rendered refine doc of
        Inl err \<Rightarrow> Inl err
      | Inr content \<Rightarrow>
          refineLLMChain_Predict refine
            (rest(r_DocumentVariableName (r_opts refine) \<mapsto> AString content,
                  r_InitialResponseName (r_opts refine) \<mapsto> AString answer)))"

fun fold_refine ::
  "RefineDocumentsChain \<Rightarrow> (string \<Rightarrow> any option) \<Rightarrow> string \<Rightarrow> Document list \<Rightarrow> error + string" where
  "fold_refine refine rest answer [] = Inr answer"
| "fold_refine refine rest answer (doc # docs) =
     (case refine_answer refine rest answer doc of
        Inl err \<Rightarrow> Inl err
      | Inr answer' \<Rightarrow> fold_refine refine rest answer' docs)"

text \<open>
  A refine chain for the examples: the initial chain answers \<open>I(c)\<close> for the content
  \<open>c\<close>, the refine chain \<open>R(c,a)\<close> for the content \<open>c\<close> and the previous answer \<open>a\<close>.
\<close>

definition pageContentFormatter :: Formatter where
  "pageContentFormatter =
     \<lparr> fm_text = ''{{.pageContent}}'',
       fm_template = \<lparr> t_root = [ActionNode ''pageContent''], t_missingKey = mapInvalid,
                       t_funcs = trimFuncMap \<rparr>,
       fm_fields = [''{{.pageContent}}''] \<rparr>"

definition exampleRefine :: RefineDocumentsChain where
  "exampleRefine =
     \<lparr> llmChain_Predict = (\<lambda>inputs.
         case inputs ''context'' of
           Some (AString c) \<Rightarrow> Inr (''I('' @ c @ '')'')
         | _ \<Rightarrow> Inl (ClientError ''no context'')),
       refineLLMChain_Predict = (\<lambda>inputs.
         case (inputs ''context'', inputs ''existingAnswer'') of
           (Some (AString c), Some (AString a)) \<Rightarrow> Inr (''R('' @ c @ '','' @ a @ '')'')
         | _ \<Rightarrow> Inl (ClientError ''no context or no answer'')),
       r_opts = \<lparr> r_InputKey = ''inputDocuments'', r_DocumentVariableName = ''context'',
                  r_InitialResponseName = ''existingAnswer'',
                  r_DocumentPrompt =
                    formatterTemplate (\<lambda>v. []) pageContentFormatter Map.empty,
                  r_OutputKey = ''text'' \<rparr> \<rparr>"

definition exampleDocs :: "Document list" where
  "exampleDocs = [Document ''a'' Map.empty, Document ''b'' Map.empty, Document ''c'' Map.empty]"

section \<open>Package llm: the Bedrock model\<close>

text \<open>
  The key under which each provider takes stop sequences; a provider that is not in the
  map has none.
\<close>

definition providerStopSequenceKeyMap :: "string \<Rightarrow> string option" where
  "providerStopSequenceKeyMap =
     map_of [(''anthropic'', ''stop_sequences''),
             (''amazon'', ''stopSequences''),
             (''ai21'', ''stop_sequences''),
             (''cohere'', ''stop_sequences''),
             (''mistral'', ''stop'')]"

text \<open>
  The adapter holds the provider. Its constructor stores the provider and returns the
  adapter; it returns no error.
\<close>

record BedrockInputOutputAdapter =
  bioa_provider :: string

definition NewBedrockInputOutputAdapter :: "string \<Rightarrow> BedrockInputOutputAdapter" where
  "NewBedrockInputOutputAdapter provider = \<lparr> bioa_provider = provider \<rparr>"

text \<open>
  \<open>PrepareInput\<close> builds the request body of the provider from the prompt and the model
  parameters and marshals it. \<open>json.Marshal\<close> is the parameter \<open>Marshal\<close>, the bytes it
  returns are of the type \<open>'b\<close>. For a provider that is none of the cases of the \<open>switch\<close>
  it returns the unsupported-provider error.
\<close>

definition PrepareInput ::
  "((string \<Rightarrow> any option) \<Rightarrow> string + 'b) \<Rightarrow> BedrockInputOutputAdapter \<Rightarrow> string
     \<Rightarrow> (string \<Rightarrow> any option) \<Rightarrow> error + 'b" where
  "PrepareInput Marshal bioa prompt modelParams =
     (let provider = bioa_provider bioa;
          body =
            (if provider = ''ai21'' then Inr (modelParams(''prompt'' \<mapsto> AString prompt))
             else if provider = ''amazon'' then
               Inr [''inputText'' \<mapsto> AString prompt, ''textGenerationConfig'' \<mapsto> AMap modelParams]
             else if provider = ''anthropic'' then
               Inr (modelParams(''messages'' \<mapsto> AMessages [(''user'', prompt)]))
             else if provider = ''cohere'' then Inr (modelParams(''prompt'' \<mapsto> AString prompt))
             else if provider = ''cohere-r'' then Inr (modelParams(''message'' \<mapsto> AString prompt))
             else if provider = ''meta'' then Inr (modelParams(''prompt'' \<mapsto> AString prompt))
             else if provider = ''mistral'' then
               Inr (modelParams(''prompt'' \<mapsto> AString (''<s>[INST] '' @ prompt @ '' [/INST]'')))
             else Inl (UnsupportedProvider provider))
      in case body of
           Inl err \<Rightarrow> Inl err
         | Inr b \<Rightarrow> (case Marshal b of Inl msg \<Rightarrow> Inl (JSONError msg) | Inr bytes \<Rightarrow> Inr bytes))"

text \<open>
  The structures into which the stream chunks are decoded, with the fields that the code
  reads, and the response bytes. The bytes are what \<open>json.Unmarshal\<close> makes of them: for
  each structure of the code, either an error message or the fields read (for the
  structures of the plain responses, the texts of the completions).
\<close>

record BedrockInvocationMetrics =
  InputTokenCount :: "32 word"
  OutputTokenCount :: "32 word"

record amazonStreamOutput =
  amazonS_OutputText :: string
  amazonS_Metrics :: BedrockInvocationMetrics

record anthropicStreamOutput =
  anthropicS_Delta_Text :: string
  anthropicS_Metrics :: BedrockInvocationMetrics

record cohereStreamOutput =
  cohereS_Generations :: "string list"
  cohereS_Metrics :: BedrockInvocationMetrics

record cohereStreamCommandROutput =
  cohereRS_Text :: string
  cohereRS_Metrics :: BedrockInvocationMetrics

record metaStreamOutput =
  metaS_Generation :: string
  metaS_Metrics :: BedrockInvocationMetrics

record mistralStreamOutput =
  mistralS_Outputs :: "string list"
  mistralS_Metrics :: BedrockInvocationMetrics

record response =
  as_ai21Output :: "string + string list"
  as_amazonOutput :: "string + string list"
  as_anthropicOutput :: "string + string list"
  as_cohereOutput :: "string + string list"
  as_cohereCommandROutput :: "string + string"
  as_metaOutput :: "string + string"
  as_mistralOutput :: "string + string list"
  as_amazonStreamOutput :: "string + amazonStreamOutput"
  as_anthropicStreamOutput :: "string + anthropicStreamOutput"
  as_cohereStreamOutput :: "string + cohereStreamOutput"
  as_cohereStreamCommandROutput :: "string + cohereStreamCommandROutput"
  as_metaStreamOutput :: "string + metaStreamOutput"
  as_mistralStreamOutput :: "string + mistralStreamOutput"

text \<open>
  \<open>PrepareOutput\<close> decodes the response into the structure of the provider and returns
  the text of the first completion; the index expression \<open>[0]\<close> panics on an empty slice.
\<close>

definition index0 :: "string list \<Rightarrow> error + string" where
  "index0 xs = (case xs of [] \<Rightarrow> Inl (Panic ''index out of range'') | x # _ \<Rightarrow> Inr x)"

definition PrepareOutput :: "BedrockInputOutputAdapter \<Rightarrow> response \<Rightarrow> error + string" where
  "PrepareOutput bioa resp =
     (let provider = bioa_provider bioa in
      if provider = ''ai21'' then
        (case as_ai21Output resp of Inl msg \<Rightarrow> Inl (JSONError msg) | Inr completions \<Rightarrow> index0 completions)
      else if provider = ''amazon'' then
        (case as_amazonOutput resp of Inl msg \<Rightarrow> Inl (JSONError msg) | Inr results \<Rightarrow> index0 results)
      else if provider = ''anthropic'' then
        (case as_anthropicOutput resp of Inl msg \<Rightarrow> Inl (JSONError msg) | Inr content \<Rightarrow> index0 content)
      else if provider = ''cohere'' then
        (case as_cohereOutput resp of Inl msg \<Rightarrow> Inl (JSONError msg) | Inr generations \<Rightarrow> index0 generations)
      else if provider = ''cohere-r'' then
        (case as_cohereCommandROutput resp of Inl msg \<Rightarrow> Inl (JSONError msg) | Inr txt \<Rightarrow> Inr txt)
      else if provider = ''meta'' then
        (case as_metaOutput resp of Inl msg \<Rightarrow> Inl (JSONError msg) | Inr generation \<Rightarrow> Inr generation)
      else if provider = ''mistral'' then
        (case as_mistralOutput resp of Inl msg \<Rightarrow> Inl (JSONError msg) | Inr outputs \<Rightarrow> index0 outputs)
      else Inl (UnsupportedProvider provider))"

text \<open>
  \<open>PrepareStreamOutput\<close> does the same for a chunk of a stream, and returns the token of
  the chunk with its two token counts (\<open>int32\<close>). The provider \<open>ai21\<close> is not among its
  cases.
\<close>

record streamOutput =
  so_token :: string
  so_inputTokens :: "32 word"
  so_outputTokens :: "32 word"

definition PrepareStreamOutput :: "BedrockInputOutputAdapter \<Rightarrow> response \<Rightarrow> error + streamOutput" where
  "PrepareStreamOutput bioa resp =
     (let provider = bioa_provider bioa in
      if provider = ''amazon'' then
        (case as_amazonStreamOutput resp of
           Inl msg \<Rightarrow> Inl (JSONError msg)
         | Inr out \<Rightarrow>
             Inr \<lparr> so_token = amazonS_OutputText out,
                   so_inputTokens = InputTokenCount (amazonS_Metrics out),
                   so_outputTokens = OutputTokenCount (amazonS_Metrics out) \<rparr>)
      else if provider = ''anthropic'' then
        (case as_anthropicStreamOutput resp of
           Inl msg \<Rightarrow> Inl (JSONError msg)
         | Inr out \<Rightarrow>
             Inr \<lparr> so_token = anthropicS_Delta_Text out,
                   so_inputTokens = InputTokenCount (anthropicS_Metrics out),
                   so_outputTokens = OutputTokenCount (anthropicS_Metrics out) \<rparr>)
      else if provider = ''cohere'' then
        (case as_cohereStreamOutput resp of
           Inl msg \<Rightarrow> Inl (JSONError msg)
         | Inr out \<Rightarrow>
             (case index0 (cohereS_Generations out) of
                Inl err \<Rightarrow> Inl err
              | Inr token \<Rightarrow>
                  Inr \<lparr> so_token = token,
                        so_inputTokens = InputTokenCount (cohereS_Metrics out),
                        so_outputTokens = OutputTokenCount (cohereS_Metrics out) \<rparr>))
      else if provider = ''cohere-r'' then
        (case as_cohereStreamCommandROutput resp of
           Inl msg \<Rightarrow> Inl (JSONError msg)
         | Inr out \<Rightarrow>
             Inr \<lparr> so_token = cohereRS_Text out,
                   so_inputTokens = InputTokenCount (cohereRS_Metrics out),
                   so_outputTokens = OutputTokenCount (cohereRS_Metrics out) \<rparr>)
      else if provider = ''meta'' then
        (case as_metaStreamOutput resp of
           Inl msg \<Rightarrow> Inl (JSONError msg)
         | Inr out \<Rightarrow>
             Inr \<lparr> so_token = metaS_Generation out,
                   so_inputTokens = InputTokenCount (metaS_Metrics out),
                   so_outputTokens = OutputTokenCount (metaS_Metrics out) \<rparr>)
      else if provider = ''mistral'' then
        (case as_mistralStreamOutput resp of
           Inl msg \<Rightarrow> Inl (JSONError msg)
         | Inr out \<Rightarrow>
             (case index0 (mistralS_Outputs out) of
                Inl err \<Rightarrow> Inl err
              | Inr token \<Rightarrow>
                  Inr \<lparr> so_token = token,
                        so_inputTokens = InputTokenCount (mistralS_Metrics out),
                        so_outputTokens = OutputTokenCount (mistralS_Metrics out) \<rparr>))
      else Inl (UnsupportedProvider provider))"

text \<open>
  The client, with the two calls that \<open>Generate\<close> makes. The stream of the second is the
  list of its events, in the order of arrival; an event is a chunk or another member of
  the union, which the loop of \<open>Generate\<close> skips.
\<close>

datatype event = ResponseStreamMemberChunk response | UnknownUnionMember

record 'b BedrockRuntimeClient =
  InvokeModel :: "string \<Rightarrow> 'b \<Rightarrow> error + response"
  InvokeModelWithResponseStream :: "string \<Rightarrow> 'b \<Rightarrow> error + event list"

text \<open>
  \<open>schema.GenerateOptions\<close>: the callback manager, of which \<open>Generate\<close> calls
  \<open>OnModelNewToken\<close> (the default is the no-op manager), the stop sequences and the
  function definitions; then the options and the structure of the model, and its result.
\<close>

record 'f GenerateOptions =
  OnModelNewToken :: "string \<Rightarrow> error option"
  Stop :: "string list"
  Functions :: "'f list"

record BedrockOptions =
  bo_ModelParams :: "string \<Rightarrow> any option"
  bo_Stream :: bool

record 'b Bedrock =
  b_client :: "'b BedrockRuntimeClient"
  b_modelID :: string
  b_opts :: BedrockOptions

record ModelResult =
  mr_Generations :: "Generation list"
  mr_LLMOutput :: "string \<Rightarrow> any option"

text \<open>
  The provider is the model id up to its first dot, \<open>cohere-r\<close> for the Command R models
  of \<open>cohere\<close>.
\<close>

definition getProvider :: "'b Bedrock \<Rightarrow> string" where
  "getProvider l =
     (let provider = hd (Split (b_modelID l) ''.'')
      in if provider = ''cohere'' \<and> Contains (b_modelID l) ''command-r''
         then provider @ ''-r'' else provider)"

text \<open>
  \<open>Generate\<close> in three parts. The options: the option functions are applied in order to
  the default options. The parameters: a copy of the model parameters, to which the stop
  sequences are added under the key of the provider when there are any; a provider
  without key is an error then. The loop over the events of the stream: a chunk is
  decoded, its token is given to the callback and appended to the tokens, its counts are
  added to the counters of the output, which are read back with a type assertion.
\<close>

definition generateOptions :: "('f GenerateOptions \<Rightarrow> 'f GenerateOptions) list \<Rightarrow> 'f GenerateOptions" where
  "generateOptions optFns =
     foldl (\<lambda>opts fn. fn opts) \<lparr> OnModelNewToken = (\<lambda>token. None), Stop = [], Functions = [] \<rparr> optFns"

definition Generate_params ::
  "'b Bedrock \<Rightarrow> 'f GenerateOptions \<Rightarrow> error + (string \<Rightarrow> any option)" where
  "Generate_params l opts =
     (let provider = getProvider l;
          params = CopyMap (bo_ModelParams (b_opts l))
      in if length (Stop opts) > 0 then
           (case providerStopSequenceKeyMap provider of
              None \<Rightarrow> Inl (StopSequenceNotSupported provider)
            | Some key \<Rightarrow> Inr (params(key \<mapsto> AStrings (Stop opts))))
         else Inr params)"

fun stream_loop ::
  "BedrockInputOutputAdapter \<Rightarrow> (string \<Rightarrow> error option) \<Rightarrow> event list
     \<Rightarrow> string list \<Rightarrow> (string \<Rightarrow> any option) \<Rightarrow> error + string list \<times> (string \<Rightarrow> any option)" where
  "stream_loop bioa onToken [] tokens llmOutput = Inr (tokens, llmOutput)"
| "stream_loop bioa onToken (UnknownUnionMember # events) tokens llmOutput =
     stream_loop bioa onToken events tokens llmOutput"
| "stream_loop bioa onToken (ResponseStreamMemberChunk bytes # events) tokens llmOutput =
     (case PrepareStreamOutput bioa bytes of
        Inl err \<Rightarrow> Inl err
      | Inr out \<Rightarrow>
          (case onToken (so_token out) of
             Some err \<Rightarrow> Inl err
           | None \<Rightarrow>
               (case (llmOutput ''input_tokens'', llmOutput ''output_tokens'') of
                  (Some (AInt32 inputTokens), Some (AInt32 outputTokens)) \<Rightarrow>
                    stream_loop bioa onToken events (tokens @ [so_token out])
                      (llmOutput(''input_tokens'' \<mapsto> AInt32 (inputTokens + so_inputTokens out),
                                 ''output_tokens'' \<mapsto> AInt32 (outputTokens + so_outputTokens out)))
                | _ \<Rightarrow> Inl (Panic ''interface conversion''))))"

text \<open>
  \<open>strings.Join\<close>, and \<open>Generate\<close>: prepare the parameters and the request, invoke the
  model with or without a stream, and return one generation with the completion.
\<close>

definition Join :: "string list \<Rightarrow> string \<Rightarrow> string" where
  "Join elems sep = (case elems of [] \<Rightarrow> [] | e # es \<Rightarrow> e @ concat (map (\<lambda>x. sep @ x) es))"

definition Bedrock_Generate ::
  "((string \<Rightarrow> any option) \<Rightarrow> string + 'b) \<Rightarrow> 'b Bedrock \<Rightarrow> string
     \<Rightarrow> ('f GenerateOptions \<Rightarrow> 'f GenerateOptions) list \<Rightarrow> error + ModelResult" where
  "Bedrock_Generate Marshal l prompt optFns =
     (let opts = generateOptions optFns;
          provider = getProvider l
      in case Generate_params l opts of
           Inl err \<Rightarrow> Inl err
         | Inr params \<Rightarrow>
             (let bioa = NewBedrockInputOutputAdapter provider
              in case PrepareInput Marshal bioa prompt params of
                   Inl err \<Rightarrow> Inl err
                 | Inr body \<Rightarrow>
                     if bo_Stream (b_opts l) then
                       (case InvokeModelWithResponseStream (b_client l) (b_modelID l) body of
                          Inl err \<Rightarrow> Inl err
                        | Inr stream \<Rightarrow>
                            (case stream_loop bioa (OnModelNewToken opts) stream []
                                    [''input_tokens'' \<mapsto> AInt32 0, ''output_tokens'' \<mapsto> AInt32 0] of
                               Inl err \<Rightarrow> Inl err
                             | Inr (tokens, llmOutput) \<Rightarrow>
                                 Inr \<lparr> mr_Generations =
                                         [\<lparr> g_Text = Join tokens [], g_Message = None,
                                             g_Info = Map.empty \<rparr>],
                                       mr_LLMOutput = llmOutput \<rparr>))
                     else
                       (case InvokeModel (b_client l) (b_modelID l) body of
                          Inl err \<Rightarrow> Inl err
                        | Inr res \<Rightarrow>
                            (case PrepareOutput bioa res of
                               Inl err \<Rightarrow> Inl err
                             | Inr completion \<Rightarrow>
                                 Inr \<lparr> mr_Generations =
                                         [\<lparr> g_Text = completion, g_Message = None,
                                             g_Info = Map.empty \<rparr>],
                                       mr_LLMOutput = Map.empty \<rparr>))))"

text \<open>
  The chunks of a stream in the order of arrival, the providers that are cases of the
  \<open>switch\<close> of \<open>PrepareInput\<close> and \<open>PrepareOutput\<close>, and an output map with the two
  counters set.
\<close>

definition chunksOf :: "event list \<Rightarrow> response list" where
  "chunksOf events = concat (map (\<lambda>e. case e of ResponseStreamMemberChunk b \<Rightarrow> [b] | _ \<Rightarrow> []) events)"

definition supportedProviders :: "string list" where
  "supportedProviders = [''ai21'', ''amazon'', ''anthropic'', ''cohere'', ''cohere-r'', ''meta'', ''mistral'']"

definition usage :: "(string \<Rightarrow> any option) \<Rightarrow> 32 word \<Rightarrow> 32 word \<Rightarrow> (string \<Rightarrow> any option)" where
  "usage m i k = m(''input_tokens'' \<mapsto> AInt32 i, ''output_tokens'' \<mapsto> AInt32 k)"

text \<open>
  For the examples: a marshaller that returns the body as it is, an option function that
  sets the stop sequences, and the responses. \<open>emptyObject\<close> is a JSON object with the
  invocation metrics only, decoded into each structure; \<open>anthropicChunk\<close> has the delta
  text of an Anthropic stream chunk in addition, \<open>metaResponse\<close> the generation of a
  Llama response. The client answers \<open>Hello\<close>, in two chunks when it streams.
\<close>

definition Marshal_ok :: "(string \<Rightarrow> any option) \<Rightarrow> string + (string \<Rightarrow> any option)" where
  "Marshal_ok body = Inr body"

definition stopOption :: "string list \<Rightarrow> unit GenerateOptions \<Rightarrow> unit GenerateOptions" where
  "stopOption stop opts = opts\<lparr> Stop := stop \<rparr>"

definition emptyObject :: "BedrockInvocationMetrics \<Rightarrow> response" where
  "emptyObject metrics =
     \<lparr> as_ai21Output = Inr [], as_amazonOutput = Inr [], as_anthropicOutput = Inr [],
       as_cohereOutput = Inr [], as_cohereCommandROutput = Inr [], as_metaOutput = Inr [],
       as_mistralOutput = Inr [],
       as_amazonStreamOutput = Inr \<lparr> amazonS_OutputText = [], amazonS_Metrics = metrics \<rparr>,
       as_anthropicStreamOutput = Inr \<lparr> anthropicS_Delta_Text = [], anthropicS_Metrics = metrics \<rparr>,
       as_cohereStreamOutput = Inr \<lparr> cohereS_Generations = [], cohereS_Metrics = metrics \<rparr>,
       as_cohereStreamCommandROutput = Inr \<lparr> cohereRS_Text = [], cohereRS_Metrics = metrics \<rparr>,
       as_metaStreamOutput = Inr \<lparr> metaS_Generation = [], metaS_Metrics = metrics \<rparr>,
       as_mistralStreamOutput = Inr \<lparr> mistralS_Outputs = [], mistralS_Metrics = metrics \<rparr> \<rparr>"

definition anthropicChunk :: "string \<Rightarrow> 32 word \<Rightarrow> 32 word \<Rightarrow> response" where
  "anthropicChunk delta i k =
     (let metrics = \<lparr> InputTokenCount = i, OutputTokenCount = k \<rparr>
      in (emptyObject metrics)
           \<lparr> as_anthropicStreamOutput :=
               Inr \<lparr> anthropicS_Delta_Text = delta, anthropicS_Metrics = metrics \<rparr> \<rparr>)"

definition metaResponse :: "string \<Rightarrow> response" where
  "metaResponse generation =
     (let metrics = \<lparr> InputTokenCount = 0, OutputTokenCount = 0 \<rparr>
      in (emptyObject metrics)
           \<lparr> as_metaOutput := Inr generation,
             as_metaStreamOutput := Inr \<lparr> metaS_Generation = generation, metaS_Metrics = metrics \<rparr> \<rparr>)"

definition helloClient :: "(string \<Rightarrow> any option) BedrockRuntimeClient" where
  "helloClient =
     \<lparr> InvokeModel = (\<lambda>modelID body. Inr (metaResponse ''Hello'')),
       InvokeModelWithResponseStream =
         (\<lambda>modelID body. Inr [ResponseStreamMemberChunk (anthropicChunk ''Hel'' 3 1),
                              ResponseStreamMemberChunk (anthropicChunk ''lo'' 0 1)]) \<rparr>"

definition claudeModel :: "(string \<Rightarrow> any option) Bedrock" where
  "claudeModel =
     \<lparr> b_client = helloClient, b_modelID = ''anthropic.claude-3-sonnet-20240229-v1:0'',
       b_opts = \<lparr> bo_ModelParams = Map.empty, bo_Stream = True \<rparr> \<rparr>"

definition llamaModel :: "(string \<Rightarrow> any option) Bedrock" where
  "llamaModel =
     \<lparr> b_client = helloClient, b_modelID = ''meta.llama2-13b-chat-v1'',
       b_opts = \<lparr> bo_ModelParams = Map.empty, bo_Stream = False \<rparr> \<rparr>"

definition commandRModel :: "(string \<Rightarrow> any option) Bedrock" where
  "commandRModel =
     \<lparr> b_client = helloClient, b_modelID = ''cohere.command-r-v1:0'',
       b_opts = \<lparr> bo_ModelParams = Map.empty, bo_Stream = False \<rparr> \<rparr>"

section \<open>Results\<close>

subsection \<open>The tokenizer\<close>

text \<open>
  C10. The Simple tokenizer answers every text and every message sequence with a count
  of 0 and a nil list of token ids, and never with an error. Every SageMaker endpoint
  model, and every Cohere model whose client could be created, carries this tokenizer,
  so its token count is 0 for any input.
\<close>

theorem Simple_tokenizer_counts_nothing:
  "GetNumTokens NewSimple txt = Inr 0
   \<and> GetTokenIDs NewSimple txt = Inr None
   \<and> GetNumTokensFromMessage NewSimple messages = Inr 0
   \<and> (\<exists>l. NewSagemakerEndpoint v client name handler = Inr l
          \<and> GetNumTokens (se_Tokenizer l) txt = Inr 0
          \<and> GetNumTokensFromMessage (se_Tokenizer l) messages = Inr 0
          \<and> GetTokenIDs (se_Tokenizer l) txt = Inr None)
   \<and> (case NewCohere v CreateClient apiKey optFns of
         Inl err \<Rightarrow> CreateClient apiKey = Inl err
       | Inr l \<Rightarrow> GetNumTokens (c_Tokenizer l) txt = Inr 0
                \<and> GetNumTokensFromMessage (c_Tokenizer l) messages = Inr 0
                \<and> GetTokenIDs (c_Tokenizer l) txt = Inr None)"
  by (simp add: NewSimple_def Simple_GetNumTokens_def Simple_GetTokenIDs_def
      Simple_GetNumTokensFromMessage_def NewSagemakerEndpoint_def NewCohere_def Let_def
      split: sum.split)

subsection \<open>Library lemmas: Index, Split\<close>

lemma Index_SomeD:
  "Index s sep = Some i \<Longrightarrow> \<exists>a b. s = a @ sep @ b \<and> length a = i"
proof (induction s arbitrary: i)
  case Nil
  then show ?case by (auto split: if_splits)
next
  case (Cons c s)
  show ?case
  proof (cases "prefix sep (c # s)")
    case True
    with Cons.prems have "i = 0" by simp
    with True show ?thesis by (auto simp: prefix_def)
  next
    case False
    with Cons.prems obtain j where j: "Index s sep = Some j" "i = Suc j" by auto
    from Cons.IH [OF j(1)] obtain a b where "s = a @ sep @ b" "length a = j" by blast
    with j(2) have "c # s = (c # a) @ sep @ b \<and> length (c # a) = i" by simp
    then show ?thesis by blast
  qed
qed

lemma Index_first:
  "\<exists>i \<le> length a. Index (a @ sep @ b) sep = Some i"
proof (induction a)
  case Nil
  have "prefix sep (sep @ b)" by simp
  then show ?case by (cases "sep @ b") (simp_all del: prefixI)
next
  case (Cons c a)
  then show ?case by auto
qed

lemma Contains_iff: "Contains s sep \<longleftrightarrow> (\<exists>a b. s = a @ sep @ b)"
proof
  assume "Contains s sep"
  then obtain i where "Index s sep = Some i" by (auto simp: Contains_def)
  from Index_SomeD [OF this] show "\<exists>a b. s = a @ sep @ b" by blast
next
  assume "\<exists>a b. s = a @ sep @ b"
  then obtain a b where "s = a @ sep @ b" by blast
  with Index_first [of a sep b] show "Contains s sep" by (auto simp: Contains_def)
qed

lemma Split_nonempty: "Split s sep \<noteq> [] \<or> (sep = [] \<and> s = [])"
  by (subst Split.simps) (auto split: option.splits)

lemma occurrences_disjoint:
  assumes eq: "a @ m @ b = pre @ m @ suf" and lt: "length a < length pre"
    and m: "m \<noteq> []" "hd m \<notin> set (tl m)"
  shows "length a + length m \<le> length pre"
proof (rule ccontr)
  assume "\<not> length a + length m \<le> length pre"
  define d where "d = length pre - length a"
  with lt \<open>\<not> length a + length m \<le> length pre\<close> have d: "0 < d" "d < length m" by auto
  have "(pre @ m @ suf) ! length pre = hd m"
    using m(1) by (simp add: nth_append hd_conv_nth)
  moreover have "(a @ m @ b) ! (length a + d) = m ! d"
    using d by (simp add: nth_append)
  moreover have "length a + d = length pre" using lt by (simp add: d_def)
  ultimately have "m ! d = hd m" using eq by simp
  moreover have "m ! d \<in> set (tl m)"
  proof -
    from d have "m ! d = tl m ! (d - 1)" by (cases m; cases d) auto
    moreover from d have "d - 1 < length (tl m)" by auto
    ultimately show ?thesis by (metis nth_mem)
  qed
  ultimately show False using m(2) by simp
qed

lemma last_Split:
  assumes m: "m \<noteq> []" "hd m \<notin> set (tl m)" and suf: "\<not> Contains suf m"
  shows "last (Split (pre @ m @ suf) m) = suf"
proof (induction "length pre" arbitrary: pre rule: less_induct)
  case less
  let ?s = "pre @ m @ suf"
  from Index_first [of pre m suf] obtain i where i: "i \<le> length pre" "Index ?s m = Some i"
    by blast
  from Index_SomeD [OF i(2)] obtain a b where ab: "?s = a @ m @ b" "length a = i" by blast
  have split: "Split ?s m = take i ?s # Split (drop (i + length m) ?s) m"
    using m(1) i(2) by (subst Split.simps) simp
  show ?case
  proof (cases "i = length pre")
    case True
    with ab have "drop (i + length m) ?s = suf" by simp
    moreover from suf have "Split suf m = [suf]"
      using m(1) by (subst Split.simps) (simp add: Contains_def)
    ultimately show ?thesis using split by simp
  next
    case False
    with i(1) ab(2) have lt: "length a < length pre" by simp
    from occurrences_disjoint [OF ab(1) [symmetric] lt m]
    have le: "i + length m \<le> length pre" using ab(2) by simp
    then have "drop (i + length m) ?s = drop (i + length m) pre @ m @ suf" by simp
    moreover have "length (drop (i + length m) pre) < length pre"
      using m(1) lt by (cases m) auto
    ultimately have "last (Split (drop (i + length m) ?s) m) = suf"
      using less by simp
    moreover have "Split (drop (i + length m) ?s) m \<noteq> []"
      using Split_nonempty [of "drop (i + length m) ?s" m] m(1) by simp
    ultimately show ?thesis using split by simp
  qed
qed

lemma last_occurrence_exists:
  assumes "m \<noteq> []" and "Contains s m"
  shows "\<exists>pre suf. s = pre @ m @ suf \<and> \<not> Contains suf m"
  using assms(2)
proof (induction "length s" arbitrary: s rule: less_induct)
  case less
  from less.prems obtain a b where ab: "s = a @ m @ b" by (auto simp: Contains_iff)
  show ?case
  proof (cases "Contains b m")
    case False
    with ab show ?thesis by blast
  next
    case True
    moreover have "length b < length s" using ab assms(1) by simp
    ultimately obtain pre suf where "b = pre @ m @ suf" "\<not> Contains suf m"
      using less.hyps by blast
    with ab have "s = (a @ m @ pre) @ m @ suf \<and> \<not> Contains suf m" by simp
    then show ?thesis by blast
  qed
qed

subsection \<open>Library lemmas: the backtracking search finds a match whenever one exists\<close>











subsection \<open>The agent's scratchpad\<close>

lemma foldl_append_concat:
  "foldl (\<lambda>acc x. (acc @ f x) @ g x) init xs = init @ concat (map (\<lambda>x. f x @ g x) xs)"
  by (induction xs arbitrary: init) simp_all

lemma constructScratchPad_concat:
  "constructScratchPad steps =
     concat (map (\<lambda>step. Log (Action step) @ ''\<newline>Observation: '' @ Observation step @ ''\<newline>Thought:'') steps)"
proof -
  have "constructScratchPad steps =
     [] @ concat (map (\<lambda>step. Log (Action step) @ (''\<newline>Observation: '' @ Observation step @ ''\<newline>Thought:'')) steps)"
    unfolding constructScratchPad_def by (rule foldl_append_concat)
  then show ?thesis by simp
qed

text \<open>
  C9. For every sequence of agent steps, \<open>Plan\<close> calls the chain with the caller's inputs
  and, under \<open>agentScratchpad\<close>, the scratchpad: the concatenation, in step order, of
  each step's action log followed by a line feed, \<open>Observation: \<close>, the step's
  observation, a line feed and \<open>Thought:\<close>; for the empty history it is the empty
  string. What \<open>Plan\<close> returns is the error of this call, or what the text that the
  chain returns under its first output key parses to.
\<close>

theorem scratchpad_is_concatenation:
  "Plan a steps inputs =
     (case agent_chain_Call a
             ((\<lambda>key. map_option AString (inputs key))
                (''agentScratchpad'' \<mapsto>
                   AString (concat (map (\<lambda>step. Log (Action step) @ ''\<newline>Observation: ''
                                            @ Observation step @ ''\<newline>Thought:'') steps)))) of
        Inl err \<Rightarrow> ([], None, Some err)
      | Inr resp \<Rightarrow>
          (case agent_chain_OutputKeys a of
             [] \<Rightarrow> ([], None, Some (Panic ''index out of range''))
           | key # keys \<Rightarrow>
               (case resp key of
                  Some (AString out) \<Rightarrow> parseOutput a out
                | _ \<Rightarrow> ([], None, Some ErrInvalidChainReturnType))))
   \<and> constructScratchPad steps =
       concat (map (\<lambda>step. Log (Action step) @ ''\<newline>Observation: ''
                              @ Observation step @ ''\<newline>Thought:'') steps)
   \<and> constructScratchPad [] = []"
proof (intro conjI)
  show "constructScratchPad steps =
       concat (map (\<lambda>step. Log (Action step) @ ''\<newline>Observation: ''
                              @ Observation step @ ''\<newline>Thought:'') steps)"
    by (rule constructScratchPad_concat)
  show "constructScratchPad [] = []"
    by (simp add: constructScratchPad_def)
  show "Plan a steps inputs =
     (case agent_chain_Call a
             ((\<lambda>key. map_option AString (inputs key))
                (''agentScratchpad'' \<mapsto>
                   AString (concat (map (\<lambda>step. Log (Action step) @ ''\<newline>Observation: ''
                                            @ Observation step @ ''\<newline>Thought:'') steps)))) of
        Inl err \<Rightarrow> ([], None, Some err)
      | Inr resp \<Rightarrow>
          (case agent_chain_OutputKeys a of
             [] \<Rightarrow> ([], None, Some (Panic ''index out of range''))
           | key # keys \<Rightarrow>
               (case resp key of
                  Some (AString out) \<Rightarrow> parseOutput a out
                | _ \<Rightarrow> ([], None, Some ErrInvalidChainReturnType))))"
    unfolding Plan_def fullInputes_def constructScratchPad_concat by (rule refl)
qed

text \<open>
  The theorem at an agent whose chain answers \<open>Final Answer:\<close> followed by the scratchpad
  it was called with: after one step, \<open>Plan\<close> finishes with the scratchpad of that step.
\<close>

lemma echo_examples:
  "Contains ''Final Answer:I look it up.\<newline>Observation: Paris\<newline>Thought:'' finalAnswerAction"
  "Split ''Final Answer:I look it up.\<newline>Observation: Paris\<newline>Thought:'' finalAnswerAction =
     [[], ''I look it up.\<newline>Observation: Paris\<newline>Thought:'']"
  by code_simp+

theorem scratchpad_is_concatenation_witness:
  "Plan echoAgent [searchStep] Map.empty =
     ([], Some \<lparr> ReturnValues = [''output'' \<mapsto> AString ''I look it up.\<newline>Observation: Paris\<newline>Thought:''],
                  FinishLog = ''Final Answer:I look it up.\<newline>Observation: Paris\<newline>Thought:'' \<rparr>,
      None)"
proof -
  have p: "parseOutput echoAgent ''Final Answer:I look it up.\<newline>Observation: Paris\<newline>Thought:'' =
     ([], Some \<lparr> ReturnValues = [''output'' \<mapsto> AString ''I look it up.\<newline>Observation: Paris\<newline>Thought:''],
                  FinishLog = ''Final Answer:I look it up.\<newline>Observation: Paris\<newline>Thought:'' \<rparr>,
      None)"
    unfolding parseOutput_def Let_def echo_examples(2) using echo_examples(1)
    by (simp add: echoAgent_def)
  from scratchpad_is_concatenation [of echoAgent "[searchStep]" Map.empty, THEN conjunct1]
  have "Plan echoAgent [searchStep] Map.empty =
        parseOutput echoAgent ''Final Answer:I look it up.\<newline>Observation: Paris\<newline>Thought:''"
    by (simp add: echoAgent_def searchStep_def)
  with p show ?thesis by simp
qed

subsection \<open>The agent's output parser: final answers\<close>

text \<open>
  The marker \<open>Final Answer:\<close> cannot overlap an occurrence of itself: its first
  character occurs nowhere else in it.
\<close>

lemma finalAnswerAction_borderless:
  "finalAnswerAction \<noteq> []" "hd finalAnswerAction \<notin> set (tl finalAnswerAction)"
  by (simp_all add: finalAnswerAction_def)

text \<open>
  C4 (as amended). For every model output that contains the marker \<open>Final Answer:\<close>
  there is a last occurrence of the marker (a split of the text into a part before, the
  marker, and a part after that holds no further marker), and the parser returns no
  action, no error, and an AgentFinish whose only return value, under the agent's output
  key, is the part after that last occurrence, exactly as it stands: nothing is trimmed.
  The log of the AgentFinish is the whole output.
\<close>

theorem parseOutput_final_answer:
  assumes "Contains out finalAnswerAction"
  shows "(\<exists>pre suf. out = pre @ finalAnswerAction @ suf \<and> \<not> Contains suf finalAnswerAction)
       \<and> (\<forall>pre suf. out = pre @ finalAnswerAction @ suf \<and> \<not> Contains suf finalAnswerAction
            \<longrightarrow> parseOutput a out =
                 ([], Some \<lparr> ReturnValues = [agent_OutputKey (agent_opts a) \<mapsto> AString suf], FinishLog = out \<rparr>, None))"
proof (intro conjI allI impI)
  show "\<exists>pre suf. out = pre @ finalAnswerAction @ suf \<and> \<not> Contains suf finalAnswerAction"
    using last_occurrence_exists [OF finalAnswerAction_borderless(1) assms] .
next
  fix pre suf
  assume h: "out = pre @ finalAnswerAction @ suf \<and> \<not> Contains suf finalAnswerAction"
  let ?splits = "Split out finalAnswerAction"
  from h have l: "last ?splits = suf"
    using last_Split [OF finalAnswerAction_borderless, of suf pre] by simp
  have "?splits \<noteq> []"
    using Split_nonempty [of out finalAnswerAction] finalAnswerAction_borderless(1) by simp
  then have "?splits ! (length ?splits - 1) = suf"
    using l by (simp add: last_conv_nth)
  with assms show "parseOutput a out =
      ([], Some \<lparr> ReturnValues = [agent_OutputKey (agent_opts a) \<mapsto> AString suf], FinishLog = out \<rparr>, None)"
    by (simp add: parseOutput_def Let_def)
qed

text \<open>
  The theorem at the spec's example: the result for \<open>... Final Answer: Paris\<close> is the
  text after the marker, which begins with the space that follows the colon.
\<close>

lemma Index_example: "Index ''... Final Answer: Paris'' finalAnswerAction = Some 4"
  by (simp add: finalAnswerAction_def)

theorem parseOutput_final_answer_witness:
  "Contains ''... Final Answer: Paris'' finalAnswerAction
   \<and> parseOutput exampleAgent ''... Final Answer: Paris'' =
       ([], Some \<lparr> ReturnValues = [''output'' \<mapsto> AString '' Paris''],
                    FinishLog = ''... Final Answer: Paris'' \<rparr>, None)"
proof -
  have c: "Contains ''... Final Answer: Paris'' finalAnswerAction"
    by (simp add: Contains_def finalAnswerAction_def)
  have d: "''... Final Answer: Paris'' = ''... '' @ finalAnswerAction @ '' Paris''
           \<and> \<not> Contains '' Paris'' finalAnswerAction"
    by (simp add: Contains_def finalAnswerAction_def)
  have e: "agent_OutputKey (agent_opts exampleAgent) = ''output''"
    by (simp add: exampleAgent_def)
  from parseOutput_final_answer [OF c, of exampleAgent, THEN conjunct2, rule_format,
      of "''... ''" "'' Paris''", OF d]
  show ?thesis using c e by simp
qed

text \<open>
  C4 as the spec states it fails at its own example: the result is not \<open>Paris\<close> but
  \<open>Paris\<close> with the leading space.
\<close>

theorem parseOutput_final_answer_keeps_space:
  "parseOutput exampleAgent ''... Final Answer: Paris'' =
     ([], Some \<lparr> ReturnValues = [''output'' \<mapsto> AString '' Paris''],
                  FinishLog = ''... Final Answer: Paris'' \<rparr>, None)
   \<and> parseOutput exampleAgent ''... Final Answer: Paris'' \<noteq>
     ([], Some \<lparr> ReturnValues = [''output'' \<mapsto> AString ''Paris''],
                  FinishLog = ''... Final Answer: Paris'' \<rparr>, None)"
proof -
  have s: "Split ''... Final Answer: Paris'' finalAnswerAction = [''... '', '' Paris'']"
    by (simp add: finalAnswerAction_def)
  have c: "Contains ''... Final Answer: Paris'' finalAnswerAction"
    unfolding Contains_def Index_example by simp
  have v: "parseOutput exampleAgent ''... Final Answer: Paris'' =
     ([], Some \<lparr> ReturnValues = [''output'' \<mapsto> AString '' Paris''],
                  FinishLog = ''... Final Answer: Paris'' \<rparr>, None)"
    unfolding parseOutput_def Let_def s using c by (simp add: exampleAgent_def)
  have "[''output'' \<mapsto> AString '' Paris''] \<noteq> [''output'' \<mapsto> AString ''Paris'']"
    by (auto dest: map_upd_eqD1)
  with v show ?thesis by simp
qed

subsection \<open>The agent's output parser: actions\<close>












subsection \<open>The formatter\<close>

text \<open>
  A formatter that \<open>NewFormatter\<close> builds has the function map it was given and the
  default option: the formatter never calls \<open>Option\<close>.
\<close>

lemma NewFormatter_template:
  assumes "NewFormatter funcs txt = Some pt"
  shows "t_missingKey (fm_template pt) = mapInvalid" and "t_funcs (fm_template pt) = funcs"
  using assms
  by (auto simp: NewFormatter_def template_Parse_def template_Funcs_def template_New_def
      split: option.splits)

text \<open>
  Under the default option the walk writes, for each node in order, \<open>nodeResult\<close> of the
  node, and stops at the first node whose result is an error.
\<close>

lemma walk_collect:
  assumes "t_missingKey t = mapInvalid"
  shows "walk Sprint t vals nodes doc =
         (case collect (map (nodeResult Sprint (t_funcs t) vals) nodes) of
            Inl err \<Rightarrow> Inl err
          | Inr d \<Rightarrow> Inr (doc @ d))"
proof (induction nodes arbitrary: doc)
  case Nil
  show ?case by simp
next
  case (Cons n nodes)
  show ?case
  proof (cases n)
    case (TextNode s)
    then show ?thesis by (simp add: Cons.IH nodeResult_def split: sum.splits)
  next
    case (ActionNode name)
    then show ?thesis
      using assms
      by (simp add: Cons.IH nodeResult_def evalField_def printValue_def
          split: sum.splits option.splits)
  next
    case (CallNode fn name)
    then show ?thesis
      using assms
      by (simp add: Cons.IH nodeResult_def evalCall_def evalField_def validateType_def
          split: sum.splits option.splits any.splits)
  qed
qed

lemma collect_error:
  "collect results = Inl err \<Longrightarrow> Inl err \<in> set results"
proof (induction results)
  case Nil
  then show ?case by simp
next
  case (Cons r results)
  then show ?case by (cases r) (simp_all split: sum.splits)
qed

lemma nodeResult_error_isCall:
  "nodeResult Sprint funcs vals n = Inl err \<Longrightarrow> isCall n"
  by (cases n) (auto simp: nodeResult_def split: option.splits)

text \<open>With the option \<open>missingkey=error\<close>, which the formatter does not set, a missing key stops the execution.\<close>

lemma Execute_missingkey_error:
  "Execute Sprint (template_Option mapError (fm_template queryFormatter)) Map.empty =
     Inl (ExecError ''map has no entry for key query'')"
  by (simp add: Execute_def template_Option_def queryFormatter_def evalField_def)

lemma Split_query: "Split ''{{.query}}'' ''{{'' = [[], ''.query}}'']"
  by code_simp

lemma Index_query: "Index ''.query}}'' ''}}'' = Some 6"
  by code_simp

lemma parseAction_query: "parseAction trimFuncMap ''.query'' = Some (ActionNode ''query'')"
  by code_simp

lemma NewFormatter_query: "NewFormatter trimFuncMap ''{{.query}}'' = Some queryFormatter"
  by (simp add: NewFormatter_def template_Parse_def template_Funcs_def template_New_def
      parseNodes_def Split_query Index_query parseAction_query textNode_def
      ListTemplateFields_def queryFormatter_def)

lemma Split_trim_query: "Split ''{{ trim .query }}'' ''{{'' = [[], '' trim .query }}'']"
  by code_simp

lemma Index_trim_query: "Index '' trim .query }}'' ''}}'' = Some 13"
  by code_simp

lemma parseAction_trim_query:
  "parseAction trimFuncMap '' trim .query '' = Some (CallNode ''trim'' ''query'')"
  by code_simp

lemma NewFormatter_trim_query:
  "NewFormatter trimFuncMap ''{{ trim .query }}'' = Some trimQueryFormatter"
  by (simp add: NewFormatter_def template_Parse_def template_Funcs_def template_New_def
      parseNodes_def Split_trim_query Index_trim_query parseAction_trim_query textNode_def
      ListTemplateFields_def trimQueryFormatter_def)

text \<open>
  C3 (as amended). For a formatter that \<open>NewFormatter\<close> builds from a template of literal
  text, field actions and calls of a function on a field, and for every map of
  variables: \<open>Render\<close> returns the texts of the nodes in order, where a field action
  whose field the map does not have contributes \<open><no value>\<close>, or the error of the
  first node that fails. A field action never fails, so a missing variable alone is no
  error; every error of \<open>Render\<close> is the error of a call, which fails when its argument
  is missing or is no string or when the function returns an error.
\<close>

theorem Render_missing_field_is_no_value:
  assumes "NewFormatter funcs txt = Some pt"
  shows "Render Sprint pt vals =
           collect (map (nodeResult Sprint funcs vals) (t_root (fm_template pt)))
         \<and> (\<forall>name. nodeResult Sprint funcs vals (ActionNode name) =
               Inr (case vals name of None \<Rightarrow> ''<no value>'' | Some v \<Rightarrow> printValue Sprint (Some v)))
         \<and> (\<forall>err. Render Sprint pt vals = Inl err \<longrightarrow>
               list_ex (\<lambda>n. isCall n \<and> nodeResult Sprint funcs vals n = Inl err)
                 (t_root (fm_template pt)))"
proof -
  let ?results = "map (nodeResult Sprint funcs vals) (t_root (fm_template pt))"
  from NewFormatter_template [OF assms]
  have "walk Sprint (fm_template pt) vals (t_root (fm_template pt)) [] =
        (case collect ?results of Inl err \<Rightarrow> Inl err | Inr d \<Rightarrow> Inr ([] @ d))"
    using walk_collect [of "fm_template pt" Sprint vals "t_root (fm_template pt)" "[]"] by simp
  then have r: "Render Sprint pt vals = collect ?results"
    by (simp add: Render_def Execute_def split: sum.splits)
  have e: "list_ex (\<lambda>n. isCall n \<and> nodeResult Sprint funcs vals n = Inl err)
             (t_root (fm_template pt))"
    if "Render Sprint pt vals = Inl err" for err
  proof -
    from that r have "collect ?results = Inl err" by simp
    then have "Inl err \<in> set ?results" by (rule collect_error)
    then obtain n where "n \<in> set (t_root (fm_template pt))"
      "nodeResult Sprint funcs vals n = Inl err" by auto
    then show ?thesis
      using nodeResult_error_isCall [of Sprint funcs vals n err] by (auto simp: list_ex_iff)
  qed
  have a: "nodeResult Sprint funcs vals (ActionNode name) =
             Inr (case vals name of None \<Rightarrow> ''<no value>'' | Some v \<Rightarrow> printValue Sprint (Some v))"
    for name by (simp add: nodeResult_def split: option.splits)
  from e have e': "\<forall>err. Render Sprint pt vals = Inl err \<longrightarrow>
               list_ex (\<lambda>n. isCall n \<and> nodeResult Sprint funcs vals n = Inl err)
                 (t_root (fm_template pt))"
    by (intro allI impI)
  from a have a': "\<forall>name. nodeResult Sprint funcs vals (ActionNode name) =
               Inr (case vals name of None \<Rightarrow> ''<no value>'' | Some v \<Rightarrow> printValue Sprint (Some v))"
    by (intro allI)
  from r a' e' show ?thesis by (intro conjI)
qed

text \<open>
  The theorem at the one-variable templates \<open>{{.query}}\<close> and \<open>{{ trim .query }}\<close>:
  with the variable supplied the first returns its value exactly and the second its
  value trimmed; with the empty map the second returns an error.
\<close>

theorem Render_missing_field_is_no_value_witness:
  "NewFormatter trimFuncMap ''{{.query}}'' = Some queryFormatter
   \<and> Render (\<lambda>v. []) queryFormatter [''query'' \<mapsto> AString ''x''] = Inr ''x''
   \<and> NewFormatter trimFuncMap ''{{ trim .query }}'' = Some trimQueryFormatter
   \<and> Render (\<lambda>v. []) trimQueryFormatter [''query'' \<mapsto> AString '' x ''] = Inr ''x''
   \<and> Render (\<lambda>v. []) trimQueryFormatter Map.empty =
       Inl (ExecError ''invalid value; expected string'')"
proof -
  have t: "TrimSpace '' x '' = ''x''" by code_simp
  from Render_missing_field_is_no_value [OF NewFormatter_query, of "\<lambda>v. []" "[''query'' \<mapsto> AString ''x'']",
      THEN conjunct1]
  have 1: "Render (\<lambda>v. []) queryFormatter [''query'' \<mapsto> AString ''x''] = Inr ''x''"
    by (simp add: queryFormatter_def nodeResult_def printValue_def)
  from Render_missing_field_is_no_value [OF NewFormatter_trim_query, of "\<lambda>v. []" "[''query'' \<mapsto> AString '' x '']",
      THEN conjunct1]
  have 2: "Render (\<lambda>v. []) trimQueryFormatter [''query'' \<mapsto> AString '' x ''] = Inr ''x''"
    by (simp add: trimQueryFormatter_def nodeResult_def trimFuncMap_def t)
  from Render_missing_field_is_no_value [OF NewFormatter_trim_query, of "\<lambda>v. []" Map.empty,
      THEN conjunct1]
  have 3: "Render (\<lambda>v. []) trimQueryFormatter Map.empty =
             Inl (ExecError ''invalid value; expected string'')"
    by (simp add: trimQueryFormatter_def nodeResult_def trimFuncMap_def)
  from 1 2 3 show ?thesis by (simp add: NewFormatter_query NewFormatter_trim_query)
qed

text \<open>
  C3 as the spec states it fails at its own example: the one-variable template rendered
  with the empty map returns a string, not a missing-variable error.
\<close>

theorem Render_query_with_empty_map:
  "NewFormatter trimFuncMap ''{{.query}}'' = Some queryFormatter
   \<and> Render (\<lambda>v. []) queryFormatter Map.empty = Inr ''<no value>''"
  by (simp add: NewFormatter_query Render_def Execute_def queryFormatter_def evalField_def
      printValue_def)

subsection \<open>The refine chain\<close>

text \<open>The loop from index \<open>i\<close> is the fold over the documents from index \<open>i\<close> on.\<close>

lemma refine_loop_fold:
  "i \<le> length docs \<Longrightarrow>
   refine_loop refine docs rest i res = fold_refine refine rest res (drop i docs)"
proof (induction refine docs rest i res rule: refine_loop.induct)
  case (1 refine docs rest i res)
  show ?case
  proof (cases "i < length docs")
    case False
    with "1.prems" show ?thesis by simp
  next
    case True
    then have d: "drop i docs = docs ! i # drop (Suc i) docs"
      by (simp add: Cons_nth_drop_Suc)
    show ?thesis
    proof (cases "constructRefineInputs refine (docs ! i) res rest")
      case (Inl err)
      with True d show ?thesis
        by (subst refine_loop.simps)
          (simp add: refine_answer_def rendered_def constructRefineInputs_def CopyMap_def
            split: sum.splits)
    next
      case (Inr refineInputs)
      show ?thesis
      proof (cases "refineLLMChain_Predict refine refineInputs")
        case (Inl err)
        with Inr True d show ?thesis
          by (subst refine_loop.simps)
            (auto simp: refine_answer_def rendered_def constructRefineInputs_def CopyMap_def
              split: sum.splits)
      next
        case (Inr res')
        from "1.IH" [OF True \<open>constructRefineInputs refine (docs ! i) res rest = Inr refineInputs\<close> Inr]
          True
        have "refine_loop refine docs rest (i + 1) res' =
              fold_refine refine rest res' (drop (i + 1) docs)" by simp
        with Inr \<open>constructRefineInputs refine (docs ! i) res rest = Inr refineInputs\<close> True d
        show ?thesis
          by (subst refine_loop.simps)
            (auto simp: refine_answer_def rendered_def constructRefineInputs_def CopyMap_def
              split: sum.splits)
      qed
    qed
  qed
qed

text \<open>
  C1. Called with a list of documents under its input key, the refine chain returns an
  InvalidInputValues error when the list is empty; otherwise it returns, under its
  output key, exactly the left fold over the documents in the supplied order: the
  initial chain applied to the first document's rendered content, then for each further
  document the refine chain applied to that document's rendered content plus the
  previous running answer. The first error of a rendering or of a chain is returned
  instead. The sub-chains are deterministic: they are functions of their inputs.
\<close>

theorem refine_call_is_left_fold:
  assumes "vals (r_InputKey (r_opts refine)) = Some (ADocuments docs)"
  shows "call refine vals =
     (case docs of
        [] \<Rightarrow> Inl (ErrInvalidInputValues ''documents slice has no elements'')
      | d0 # ds \<Rightarrow>
          (case initial_answer refine (OmitByKeys vals [r_InputKey (r_opts refine)]) d0 of
             Inl err \<Rightarrow> Inl err
           | Inr answer \<Rightarrow>
               (case fold_refine refine (OmitByKeys vals [r_InputKey (r_opts refine)]) answer ds of
                  Inl err \<Rightarrow> Inl err
                | Inr final \<Rightarrow> Inr [r_OutputKey (r_opts refine) \<mapsto> AString final])))"
proof (cases docs)
  case Nil
  with assms show ?thesis by (simp add: call_def)
next
  case (Cons d0 ds)
  have "refine_loop refine docs rest 1 res = fold_refine refine rest res ds" for rest res
    using refine_loop_fold [of 1 docs refine rest res] Cons by simp
  with assms Cons show ?thesis
    by (simp add: call_def Let_def initial_answer_def rendered_def constructInitialInputs_def
        CopyMap_def split: sum.splits)
qed

text \<open>
  The theorem on three documents \<open>a\<close>, \<open>b\<close>, \<open>c\<close>, for a chain as
  \<open>NewRefineDocumentsChain\<close> builds it: the answer is \<open>R(c,R(b,I(a)))\<close>.
\<close>

lemma Split_pageContent: "Split ''{{.pageContent}}'' ''{{'' = [[], ''.pageContent}}'']"
  by code_simp

lemma Index_pageContent: "Index ''.pageContent}}'' ''}}'' = Some 12"
  by code_simp

lemma parseAction_pageContent:
  "parseAction trimFuncMap ''.pageContent'' = Some (ActionNode ''pageContent'')"
  by code_simp

lemma NewFormatter_pageContent:
  "NewFormatter trimFuncMap ''{{.pageContent}}'' = Some pageContentFormatter"
  by (simp add: NewFormatter_def template_Parse_def template_Funcs_def template_New_def
      parseNodes_def Split_pageContent Index_pageContent parseAction_pageContent textNode_def
      ListTemplateFields_def pageContentFormatter_def)

lemma exampleRefine_is_constructed:
  "NewRefineDocumentsChain
     (\<lambda>txt. case NewFormatter trimFuncMap txt of
        None \<Rightarrow> Inl (Panic ''template'')
      | Some f \<Rightarrow> Inr (formatterTemplate (\<lambda>v. []) f Map.empty))
     (llmChain_Predict exampleRefine) (refineLLMChain_Predict exampleRefine) = Inr exampleRefine"
  by (simp add: NewRefineDocumentsChain_def NewFormatter_pageContent exampleRefine_def)

theorem refine_call_is_left_fold_witness:
  "[''inputDocuments'' \<mapsto> ADocuments exampleDocs] (r_InputKey (r_opts exampleRefine)) =
     Some (ADocuments exampleDocs)
   \<and> call exampleRefine [''inputDocuments'' \<mapsto> ADocuments exampleDocs] =
       Inr [''text'' \<mapsto> AString ''R(c,R(b,I(a)))'']"
proof -
  have k: "[''inputDocuments'' \<mapsto> ADocuments exampleDocs] (r_InputKey (r_opts exampleRefine)) =
     Some (ADocuments exampleDocs)"
    by (simp add: exampleRefine_def)
  from refine_call_is_left_fold [where vals = "[''inputDocuments'' \<mapsto> ADocuments exampleDocs]"
      and refine = exampleRefine and docs = exampleDocs, OF k] k
  show ?thesis
    by (simp add: exampleDocs_def initial_answer_def refine_answer_def rendered_def docInfo_def
        exampleRefine_def formatterTemplate_def referencedFields_def Render_def Execute_def
        evalField_def pageContentFormatter_def printValue_def OmitByKeys_def Let_def)
qed

subsection \<open>The LLM chain\<close>







subsection \<open>The Bedrock model: streaming\<close>

lemma Join_empty_sep: "Join elems [] = concat elems"
proof -
  have "map ((@) []) es = es" for es :: "string list"
    by (induction es) simp_all
  then show ?thesis by (cases elems) (simp_all add: Join_def)
qed

lemma usage_lookup:
  "usage m i k ''input_tokens'' = Some (AInt32 i)"
  "usage m i k ''output_tokens'' = Some (AInt32 k)"
  by (simp_all add: usage_def)

lemma usage_usage: "usage (usage m a b) i k = usage m i k"
  by (rule ext) (simp add: usage_def)

lemma stream_loop_sums:
  assumes "map (PrepareStreamOutput bioa) (chunksOf events) = map Inr outs"
    and "list_all (\<lambda>out. onToken (so_token out) = None) outs"
    and "m ''input_tokens'' = Some (AInt32 i)" and "m ''output_tokens'' = Some (AInt32 k)"
  shows "stream_loop bioa onToken events tokens m =
         Inr (tokens @ map so_token outs,
              usage m (i + sum_list (map so_inputTokens outs))
                      (k + sum_list (map so_outputTokens outs)))"
  using assms
proof (induction events arbitrary: tokens i k outs m)
  case Nil
  then have "outs = []" by (simp add: chunksOf_def)
  moreover have "usage m i k = m"
    using Nil.prems(3,4) by (auto simp: usage_def)
  ultimately show ?case by simp
next
  case (Cons e events)
  show ?case
  proof (cases e)
    case UnknownUnionMember
    with Cons.prems have "map (PrepareStreamOutput bioa) (chunksOf events) = map Inr outs"
      by (simp add: chunksOf_def)
    from Cons.IH [OF this Cons.prems(2,3,4)] UnknownUnionMember show ?thesis by simp
  next
    case (ResponseStreamMemberChunk bytes)
    with Cons.prems(1) obtain out outs' where o: "outs = out # outs'"
      "PrepareStreamOutput bioa bytes = Inr out"
      "map (PrepareStreamOutput bioa) (chunksOf events) = map Inr outs'"
      by (cases outs) (auto simp: chunksOf_def)
    from Cons.prems(2) o(1) have t: "onToken (so_token out) = None"
      and r: "list_all (\<lambda>out. onToken (so_token out) = None) outs'" by simp_all
    let ?m = "usage m (i + so_inputTokens out) (k + so_outputTokens out)"
    have step: "stream_loop bioa onToken (e # events) tokens m =
                stream_loop bioa onToken events (tokens @ [so_token out]) ?m"
      using ResponseStreamMemberChunk o(2) t Cons.prems(3,4) by (simp add: usage_def)
    have "stream_loop bioa onToken events (tokens @ [so_token out]) ?m =
          Inr ((tokens @ [so_token out]) @ map so_token outs',
               usage ?m (i + so_inputTokens out + sum_list (map so_inputTokens outs'))
                        (k + so_outputTokens out + sum_list (map so_outputTokens outs')))"
      by (rule Cons.IH [OF o(3) r usage_lookup])
    then show ?thesis
      unfolding step by (simp add: o(1) usage_usage add.assoc)
  qed
qed

lemma sint_sum_list:
  "sint (sum_list ws) = signed_take_bit 31 (sum_list (map sint ws))" for ws :: "32 word list"
proof (induction ws)
  case Nil
  show ?case by simp
next
  case (Cons w ws)
  have "sint (w + sum_list ws) = signed_take_bit 31 (sint w + sint (sum_list ws))"
    by (simp add: sint_word_ariths)
  also have "\<dots> = signed_take_bit 31 (sint w + sum_list (map sint ws))"
    unfolding Cons.IH
    by (metis signed_take_bit_add signed_take_bit_signed_take_bit min.idem)
  finally show ?case by simp
qed

lemma sint_sum_list_exact:
  fixes ws :: "32 word list"
  assumes "- (2 ^ 31) \<le> sum_list (map sint ws)" and "sum_list (map sint ws) < 2 ^ 31"
  shows "sint (sum_list ws) = sum_list (map sint ws)"
  unfolding sint_sum_list using assms by (simp add: signed_take_bit_int_eq_self)

text \<open>
  C6. In streaming mode, when the request is prepared, the client returns a stream, every
  chunk of the stream decodes and the new-token callback accepts every token,
  \<open>Bedrock.Generate\<close> returns one generation whose text is the concatenation of the
  tokens of the chunks in the order of the stream, and the counters \<open>input_tokens\<close> and
  \<open>output_tokens\<close> of its output are the sums of the counts of the chunks. The sums are
  sums of \<open>int32\<close>; they are the sums of the integers whenever those fit in an \<open>int32\<close>.
\<close>

theorem Generate_stream_accumulates:
  assumes "bo_Stream (b_opts l)"
    and "Generate_params l (generateOptions optFns) = Inr params"
    and "PrepareInput Marshal (NewBedrockInputOutputAdapter (getProvider l)) prompt params = Inr body"
    and "InvokeModelWithResponseStream (b_client l) (b_modelID l) body = Inr events"
    and "map (PrepareStreamOutput (NewBedrockInputOutputAdapter (getProvider l))) (chunksOf events) =
           map Inr outs"
    and "list_all (\<lambda>out. OnModelNewToken (generateOptions optFns) (so_token out) = None) outs"
  shows "Bedrock_Generate Marshal l prompt optFns =
           Inr \<lparr> mr_Generations =
                   [\<lparr> g_Text = concat (map so_token outs), g_Message = None, g_Info = Map.empty \<rparr>],
                 mr_LLMOutput =
                   [''input_tokens'' \<mapsto> AInt32 (sum_list (map so_inputTokens outs)),
                    ''output_tokens'' \<mapsto> AInt32 (sum_list (map so_outputTokens outs))] \<rparr>
         \<and> (- (2 ^ 31) \<le> sum_list (map sint (map so_inputTokens outs))
              \<and> sum_list (map sint (map so_inputTokens outs)) < 2 ^ 31
            \<longrightarrow> sint (sum_list (map so_inputTokens outs)) =
                  sum_list (map sint (map so_inputTokens outs)))
         \<and> (- (2 ^ 31) \<le> sum_list (map sint (map so_outputTokens outs))
              \<and> sum_list (map sint (map so_outputTokens outs)) < 2 ^ 31
            \<longrightarrow> sint (sum_list (map so_outputTokens outs)) =
                  sum_list (map sint (map so_outputTokens outs)))"
proof -
  let ?bioa = "NewBedrockInputOutputAdapter (getProvider l)"
  let ?m = "[''input_tokens'' \<mapsto> AInt32 0, ''output_tokens'' \<mapsto> AInt32 0]"
  have "stream_loop ?bioa (OnModelNewToken (generateOptions optFns)) events [] ?m =
        Inr ([] @ map so_token outs,
             usage ?m (0 + sum_list (map so_inputTokens outs))
                      (0 + sum_list (map so_outputTokens outs)))"
    by (rule stream_loop_sums [OF assms(5,6)]) simp_all
  moreover have "usage ?m a b = [''input_tokens'' \<mapsto> AInt32 a, ''output_tokens'' \<mapsto> AInt32 b]"
    for a b by (rule ext) (simp add: usage_def)
  ultimately have loop:
    "stream_loop ?bioa (OnModelNewToken (generateOptions optFns)) events [] ?m =
     Inr (map so_token outs,
          [''input_tokens'' \<mapsto> AInt32 (sum_list (map so_inputTokens outs)),
           ''output_tokens'' \<mapsto> AInt32 (sum_list (map so_outputTokens outs))])"
    by simp
  have "Bedrock_Generate Marshal l prompt optFns =
          Inr \<lparr> mr_Generations =
                  [\<lparr> g_Text = concat (map so_token outs), g_Message = None, g_Info = Map.empty \<rparr>],
                mr_LLMOutput =
                  [''input_tokens'' \<mapsto> AInt32 (sum_list (map so_inputTokens outs)),
                   ''output_tokens'' \<mapsto> AInt32 (sum_list (map so_outputTokens outs))] \<rparr>"
    unfolding Bedrock_Generate_def Let_def assms(2) sum.case assms(3) assms(4) loop
    using assms(1) by (simp add: Join_empty_sep)
  then show ?thesis
    by (simp add: sint_sum_list_exact)
qed

lemma getProvider_examples:
  "getProvider claudeModel = ''anthropic''"
  "getProvider llamaModel = ''meta''"
  "getProvider commandRModel = ''cohere-r''"
  by (simp_all add: getProvider_def claudeModel_def llamaModel_def commandRModel_def, code_simp+)

text \<open>
  The theorem at the stream of two chunks \<open>Hel\<close> (3 input tokens, 1 output token) and
  \<open>lo\<close> (1 output token): the completion is \<open>Hello\<close>, the counters are 3 and 2.
\<close>

theorem Generate_stream_accumulates_witness:
  "Bedrock_Generate Marshal_ok claudeModel ''Say hello''
     ([] :: (unit GenerateOptions \<Rightarrow> unit GenerateOptions) list) =
   Inr \<lparr> mr_Generations = [\<lparr> g_Text = ''Hello'', g_Message = None, g_Info = Map.empty \<rparr>],
         mr_LLMOutput = [''input_tokens'' \<mapsto> AInt32 3, ''output_tokens'' \<mapsto> AInt32 2] \<rparr>"
proof -
  let ?optFns = "[] :: (unit GenerateOptions \<Rightarrow> unit GenerateOptions) list"
  let ?outs = "[\<lparr> so_token = ''Hel'', so_inputTokens = 3, so_outputTokens = 1 \<rparr>,
                \<lparr> so_token = ''lo'', so_inputTokens = 0, so_outputTokens = 1 \<rparr>]"
  let ?body = "[''messages'' \<mapsto> AMessages [(''user'', ''Say hello'')]]"
  let ?events = "[ResponseStreamMemberChunk (anthropicChunk ''Hel'' 3 1),
                  ResponseStreamMemberChunk (anthropicChunk ''lo'' 0 1)]"
  have 1: "bo_Stream (b_opts claudeModel)" by (simp add: claudeModel_def)
  have 2: "Generate_params claudeModel (generateOptions ?optFns) = Inr Map.empty"
    by (simp add: Generate_params_def generateOptions_def CopyMap_def claudeModel_def)
  have 3: "PrepareInput Marshal_ok (NewBedrockInputOutputAdapter (getProvider claudeModel))
             ''Say hello'' Map.empty = Inr ?body"
    unfolding getProvider_examples
    by (simp add: PrepareInput_def NewBedrockInputOutputAdapter_def Marshal_ok_def)
  have 4: "InvokeModelWithResponseStream (b_client claudeModel) (b_modelID claudeModel) ?body =
             Inr ?events"
    by (simp add: claudeModel_def helloClient_def)
  have 5: "map (PrepareStreamOutput (NewBedrockInputOutputAdapter (getProvider claudeModel)))
             (chunksOf ?events) = map Inr ?outs"
    unfolding getProvider_examples
    by (simp add: PrepareStreamOutput_def NewBedrockInputOutputAdapter_def chunksOf_def
        anthropicChunk_def emptyObject_def Let_def)
  have 6: "list_all (\<lambda>out. OnModelNewToken (generateOptions ?optFns) (so_token out) = None) ?outs"
    by (simp add: generateOptions_def)
  from Generate_stream_accumulates [OF 1 2 3 4 5 6] show ?thesis by simp
qed

subsection \<open>The Bedrock model: providers\<close>

lemma PrepareInput_at:
  "PrepareInput Marshal \<lparr> bioa_provider = ''ai21'' \<rparr> prompt params \<noteq> Inl (UnsupportedProvider p)"
  "PrepareInput Marshal \<lparr> bioa_provider = ''amazon'' \<rparr> prompt params \<noteq> Inl (UnsupportedProvider p)"
  "PrepareInput Marshal \<lparr> bioa_provider = ''anthropic'' \<rparr> prompt params \<noteq> Inl (UnsupportedProvider p)"
  "PrepareInput Marshal \<lparr> bioa_provider = ''cohere'' \<rparr> prompt params \<noteq> Inl (UnsupportedProvider p)"
  "PrepareInput Marshal \<lparr> bioa_provider = ''cohere-r'' \<rparr> prompt params \<noteq> Inl (UnsupportedProvider p)"
  "PrepareInput Marshal \<lparr> bioa_provider = ''meta'' \<rparr> prompt params \<noteq> Inl (UnsupportedProvider p)"
  "PrepareInput Marshal \<lparr> bioa_provider = ''mistral'' \<rparr> prompt params \<noteq> Inl (UnsupportedProvider p)"
  by (simp_all add: PrepareInput_def split: sum.splits)

lemma PrepareInput_supported:
  assumes "provider \<in> set supportedProviders"
  shows "PrepareInput Marshal (NewBedrockInputOutputAdapter provider) prompt params \<noteq>
         Inl (UnsupportedProvider p)"
proof -
  from assms consider "provider = ''ai21''" | "provider = ''amazon''" | "provider = ''anthropic''"
    | "provider = ''cohere''" | "provider = ''cohere-r''" | "provider = ''meta''"
    | "provider = ''mistral''"
    unfolding supportedProviders_def by fastforce
  then show ?thesis
    unfolding NewBedrockInputOutputAdapter_def
    by cases (simp_all only: PrepareInput_at not_False_eq_True)
qed

lemma PrepareInput_unsupported:
  assumes "provider \<notin> set supportedProviders"
  shows "PrepareInput Marshal (NewBedrockInputOutputAdapter provider) prompt params =
         Inl (UnsupportedProvider provider)"
  using assms
  by (simp add: PrepareInput_def NewBedrockInputOutputAdapter_def supportedProviders_def)

lemma index0_no_provider_error: "index0 xs \<noteq> Inl (UnsupportedProvider p)"
  by (simp add: index0_def split: list.splits)

lemma PrepareOutput_at:
  "PrepareOutput \<lparr> bioa_provider = ''ai21'' \<rparr> resp \<noteq> Inl (UnsupportedProvider p)"
  "PrepareOutput \<lparr> bioa_provider = ''amazon'' \<rparr> resp \<noteq> Inl (UnsupportedProvider p)"
  "PrepareOutput \<lparr> bioa_provider = ''anthropic'' \<rparr> resp \<noteq> Inl (UnsupportedProvider p)"
  "PrepareOutput \<lparr> bioa_provider = ''cohere'' \<rparr> resp \<noteq> Inl (UnsupportedProvider p)"
  "PrepareOutput \<lparr> bioa_provider = ''cohere-r'' \<rparr> resp \<noteq> Inl (UnsupportedProvider p)"
  "PrepareOutput \<lparr> bioa_provider = ''meta'' \<rparr> resp \<noteq> Inl (UnsupportedProvider p)"
  "PrepareOutput \<lparr> bioa_provider = ''mistral'' \<rparr> resp \<noteq> Inl (UnsupportedProvider p)"
  by (simp_all add: PrepareOutput_def index0_no_provider_error split: sum.splits)

lemma PrepareOutput_supported:
  assumes "provider \<in> set supportedProviders"
  shows "PrepareOutput (NewBedrockInputOutputAdapter provider) resp \<noteq>
         Inl (UnsupportedProvider p)"
proof -
  from assms consider "provider = ''ai21''" | "provider = ''amazon''" | "provider = ''anthropic''"
    | "provider = ''cohere''" | "provider = ''cohere-r''" | "provider = ''meta''"
    | "provider = ''mistral''"
    unfolding supportedProviders_def by fastforce
  then show ?thesis
    unfolding NewBedrockInputOutputAdapter_def
    by cases (simp_all only: PrepareOutput_at not_False_eq_True)
qed

lemma PrepareOutput_unsupported:
  assumes "provider \<notin> set supportedProviders"
  shows "PrepareOutput (NewBedrockInputOutputAdapter provider) resp =
         Inl (UnsupportedProvider provider)"
  using assms
  by (simp add: PrepareOutput_def NewBedrockInputOutputAdapter_def supportedProviders_def)

text \<open>
  C7 (as amended). Constructing an adapter never fails, whatever the provider is: the
  constructor stores the provider and returns. An unknown provider surfaces at call time:
  \<open>PrepareInput\<close> and \<open>PrepareOutput\<close> return the unsupported-provider error, for the
  adapter's provider, exactly when that provider is none of \<open>ai21\<close>, \<open>amazon\<close>,
  \<open>anthropic\<close>, \<open>cohere\<close>, \<open>cohere-r\<close>, \<open>meta\<close> and \<open>mistral\<close>.
\<close>

theorem unsupported_provider_surfaces_at_call_time:
  "NewBedrockInputOutputAdapter provider = \<lparr> bioa_provider = provider \<rparr>
   \<and> (PrepareInput Marshal (NewBedrockInputOutputAdapter provider) prompt modelParams =
        Inl (UnsupportedProvider p)
      \<longleftrightarrow> p = provider \<and> provider \<notin> set supportedProviders)
   \<and> (PrepareOutput (NewBedrockInputOutputAdapter provider) resp = Inl (UnsupportedProvider p)
      \<longleftrightarrow> p = provider \<and> provider \<notin> set supportedProviders)"
proof (intro conjI)
  show "NewBedrockInputOutputAdapter provider = \<lparr> bioa_provider = provider \<rparr>"
    by (simp add: NewBedrockInputOutputAdapter_def)
  show "PrepareInput Marshal (NewBedrockInputOutputAdapter provider) prompt modelParams =
        Inl (UnsupportedProvider p)
      \<longleftrightarrow> p = provider \<and> provider \<notin> set supportedProviders"
  proof (cases "provider \<in> set supportedProviders")
    case True
    then show ?thesis by (simp add: PrepareInput_supported)
  next
    case False
    then show ?thesis by (auto simp: PrepareInput_unsupported)
  qed
  show "PrepareOutput (NewBedrockInputOutputAdapter provider) resp = Inl (UnsupportedProvider p)
      \<longleftrightarrow> p = provider \<and> provider \<notin> set supportedProviders"
  proof (cases "provider \<in> set supportedProviders")
    case True
    then show ?thesis by (simp add: PrepareOutput_supported)
  next
    case False
    then show ?thesis by (auto simp: PrepareOutput_unsupported)
  qed
qed

text \<open>
  C7 as the spec states it fails: the adapter for the provider \<open>openai\<close> is constructed,
  and its request preparation and its response preparation return the
  unsupported-provider error.
\<close>

theorem openai_adapter_fails_at_call_time:
  "NewBedrockInputOutputAdapter ''openai'' = \<lparr> bioa_provider = ''openai'' \<rparr>
   \<and> PrepareInput Marshal_ok (NewBedrockInputOutputAdapter ''openai'') ''Say hello'' Map.empty =
       Inl (UnsupportedProvider ''openai'')
   \<and> PrepareOutput (NewBedrockInputOutputAdapter ''openai'') (metaResponse ''Hello'') =
       Inl (UnsupportedProvider ''openai'')"
  by (simp add: NewBedrockInputOutputAdapter_def PrepareInput_def PrepareOutput_def)

subsection \<open>The Bedrock model: stop sequences\<close>

lemma getProvider_b_opts: "getProvider (l\<lparr> b_opts := opts \<rparr>) = getProvider l"
  by (simp add: getProvider_def)

lemma generateOptions_snoc:
  "generateOptions (optFns @ [fn]) = fn (generateOptions optFns)"
  by (simp add: generateOptions_def)

lemma Bedrock_Generate_cong:
  assumes "Generate_params l (generateOptions optFns) = Generate_params l' (generateOptions optFns')"
    and "getProvider l = getProvider l'"
    and "bo_Stream (b_opts l) = bo_Stream (b_opts l')"
    and "b_client l = b_client l'"
    and "b_modelID l = b_modelID l'"
    and "OnModelNewToken (generateOptions optFns) = OnModelNewToken (generateOptions optFns')"
  shows "Bedrock_Generate Marshal l prompt optFns = Bedrock_Generate Marshal l' prompt optFns'"
  unfolding Bedrock_Generate_def Let_def assms by (rule refl)

text \<open>
  C8 (as amended). An option that \<open>Bedrock.Generate\<close> does not read, such as the function
  definitions, is silently dropped: the result is the same with and without it. Stop
  sequences are not dropped. When the options carry stop sequences and the provider has
  no stop-sequence key, which is the case for every provider but \<open>anthropic\<close>, \<open>amazon\<close>,
  \<open>ai21\<close>, \<open>cohere\<close> and \<open>mistral\<close> (so for \<open>meta\<close> and \<open>cohere-r\<close>), \<open>Generate\<close> returns
  an error and nothing is generated; when the provider has a key, \<open>Generate\<close> does what it
  does without stop sequences for the model parameters extended by the stop sequences
  under that key.
\<close>

theorem Generate_stop_sequences:
  assumes "Stop (generateOptions optFns) \<noteq> []"
  shows "Bedrock_Generate Marshal l prompt optFns =
           (case providerStopSequenceKeyMap (getProvider l) of
              None \<Rightarrow> Inl (StopSequenceNotSupported (getProvider l))
            | Some key \<Rightarrow>
                Bedrock_Generate Marshal
                  (l\<lparr> b_opts := (b_opts l)
                       \<lparr> bo_ModelParams :=
                           (bo_ModelParams (b_opts l))(key \<mapsto> AStrings (Stop (generateOptions optFns))) \<rparr> \<rparr>)
                  prompt (optFns @ [\<lambda>opts. opts\<lparr> Stop := [] \<rparr>]))
         \<and> (providerStopSequenceKeyMap provider = None
            \<longleftrightarrow> provider \<notin> set [''anthropic'', ''amazon'', ''ai21'', ''cohere'', ''mistral''])
         \<and> Bedrock_Generate Marshal l prompt (optFns @ [\<lambda>opts. opts\<lparr> Functions := fs \<rparr>]) =
             Bedrock_Generate Marshal l prompt optFns"
proof (intro conjI)
  let ?opts = "generateOptions optFns"
  show "Bedrock_Generate Marshal l prompt optFns =
           (case providerStopSequenceKeyMap (getProvider l) of
              None \<Rightarrow> Inl (StopSequenceNotSupported (getProvider l))
            | Some key \<Rightarrow>
                Bedrock_Generate Marshal
                  (l\<lparr> b_opts := (b_opts l)
                       \<lparr> bo_ModelParams :=
                           (bo_ModelParams (b_opts l))(key \<mapsto> AStrings (Stop (generateOptions optFns))) \<rparr> \<rparr>)
                  prompt (optFns @ [\<lambda>opts. opts\<lparr> Stop := [] \<rparr>]))"
  proof (cases "providerStopSequenceKeyMap (getProvider l)")
    case None
    then have "Generate_params l ?opts = Inl (StopSequenceNotSupported (getProvider l))"
      using assms by (simp add: Generate_params_def Let_def)
    then have "Bedrock_Generate Marshal l prompt optFns =
               Inl (StopSequenceNotSupported (getProvider l))"
      by (simp add: Bedrock_Generate_def Let_def)
    with None show ?thesis by simp
  next
    case (Some key)
    let ?l = "l\<lparr> b_opts := (b_opts l)
                  \<lparr> bo_ModelParams := (bo_ModelParams (b_opts l))(key \<mapsto> AStrings (Stop ?opts)) \<rparr> \<rparr>"
    have "Generate_params l ?opts =
          Generate_params ?l (generateOptions (optFns @ [\<lambda>opts. opts\<lparr> Stop := [] \<rparr>]))"
      using assms Some
      by (simp add: Generate_params_def Let_def getProvider_b_opts generateOptions_snoc CopyMap_def)
    then have "Bedrock_Generate Marshal l prompt optFns =
               Bedrock_Generate Marshal ?l prompt (optFns @ [\<lambda>opts. opts\<lparr> Stop := [] \<rparr>])"
      by (rule Bedrock_Generate_cong) (simp_all add: getProvider_b_opts generateOptions_snoc)
    with Some show ?thesis by simp
  qed
  show "providerStopSequenceKeyMap provider = None
            \<longleftrightarrow> provider \<notin> set [''anthropic'', ''amazon'', ''ai21'', ''cohere'', ''mistral'']"
    by (simp add: providerStopSequenceKeyMap_def)
  have "Generate_params l (generateOptions (optFns @ [\<lambda>opts. opts\<lparr> Functions := fs \<rparr>])) =
        Generate_params l ?opts"
    by (simp add: Generate_params_def generateOptions_snoc Let_def split: option.splits)
  then show "Bedrock_Generate Marshal l prompt (optFns @ [\<lambda>opts. opts\<lparr> Functions := fs \<rparr>]) =
             Bedrock_Generate Marshal l prompt optFns"
    by (rule Bedrock_Generate_cong) (simp_all add: generateOptions_snoc)
qed

text \<open>
  The theorem at a Command R model called with the stop sequence \<open>###\<close>: the provider is
  \<open>cohere-r\<close>, which has no stop-sequence key, and \<open>Generate\<close> returns the error.
\<close>

theorem Generate_stop_sequences_witness:
  "Stop (generateOptions [stopOption [''###'']]) = [''###'']
   \<and> Bedrock_Generate Marshal_ok commandRModel ''Say hello'' [stopOption [''###'']] =
       Inl (StopSequenceNotSupported ''cohere-r'')"
proof -
  have s: "Stop (generateOptions [stopOption [''###'']]) = [''###'']"
    by (simp add: generateOptions_def stopOption_def)
  then have n: "Stop (generateOptions [stopOption [''###'']]) \<noteq> []" by simp
  have k: "providerStopSequenceKeyMap ''cohere-r'' = None"
    by (simp add: providerStopSequenceKeyMap_def)
  from Generate_stop_sequences [OF n, where l = commandRModel and Marshal = Marshal_ok
      and prompt = "''Say hello''"] s
  show ?thesis
    unfolding getProvider_examples k by simp
qed

text \<open>
  C8 as the spec states it fails: a Llama model answers \<open>Hello\<close> when it is called without
  options, and returns an error, not a generation, when it is called with the stop
  sequence \<open>###\<close>, because the provider \<open>meta\<close> has no stop-sequence key.
\<close>

theorem llama_with_stop_sequence_is_an_error:
  "Bedrock_Generate Marshal_ok llamaModel ''Say hello''
     ([] :: (unit GenerateOptions \<Rightarrow> unit GenerateOptions) list) =
     Inr \<lparr> mr_Generations = [\<lparr> g_Text = ''Hello'', g_Message = None, g_Info = Map.empty \<rparr>],
           mr_LLMOutput = Map.empty \<rparr>
   \<and> Bedrock_Generate Marshal_ok llamaModel ''Say hello'' [stopOption [''###'']] =
       Inl (StopSequenceNotSupported ''meta'')"
proof -
  have k: "providerStopSequenceKeyMap ''meta'' = None"
    by (simp add: providerStopSequenceKeyMap_def)
  have o: "generateOptions ([] :: (unit GenerateOptions \<Rightarrow> unit GenerateOptions) list) =
           \<lparr> OnModelNewToken = (\<lambda>token. None), Stop = [], Functions = [] \<rparr>"
    by (simp add: generateOptions_def)
  have 1: "Bedrock_Generate Marshal_ok llamaModel ''Say hello''
     ([] :: (unit GenerateOptions \<Rightarrow> unit GenerateOptions) list) =
     Inr \<lparr> mr_Generations = [\<lparr> g_Text = ''Hello'', g_Message = None, g_Info = Map.empty \<rparr>],
           mr_LLMOutput = Map.empty \<rparr>"
    unfolding Bedrock_Generate_def Generate_params_def Let_def getProvider_examples o
    by (simp add: llamaModel_def helloClient_def PrepareInput_def PrepareOutput_def
        NewBedrockInputOutputAdapter_def Marshal_ok_def metaResponse_def emptyObject_def
        CopyMap_def Let_def)
  have 2: "Bedrock_Generate Marshal_ok llamaModel ''Say hello'' [stopOption [''###'']] =
       Inl (StopSequenceNotSupported ''meta'')"
    unfolding Bedrock_Generate_def Generate_params_def Let_def getProvider_examples k
    by (simp add: generateOptions_def stopOption_def)
  from 1 2 show ?thesis by simp
qed

end
